theory Spec2Isabelle
  imports Complex_Main
begin

section \<open>Data model\<close>

text \<open>
  The engine of \<^verbatim>\<open>decoden/functions.py\<close> works on pandas frames and numpy arrays of
  floating-point numbers. Numbers are modelled as \<^typ>\<open>real\<close>; a two-dimensional array is
  the list of its rows. An exception of the source is a value of \<open>error\<close>, and a function
  that can raise returns \<open>error + 'a\<close>.
\<close>

datatype error = IndexError | KeyError | ValueError | NameError | NonFinite | Misaligned

text \<open>
  The first four are Python's exceptions. The last two mark where a run leaves what the
  model follows: \<open>NonFinite\<close> stands for a logarithm of a number that is not positive
  (numpy warns and goes on with \<open>-inf\<close> or \<open>nan\<close>), \<open>Misaligned\<close> for arithmetic on two
  pandas series whose indexes differ (pandas would align them by label).
\<close>

type_synonym matrix = "real list list"

text \<open>
  A DataFrame: its column labels and its rows, each row with its index label. (A pandas
  frame is rectangular: every row has one entry per column.)
\<close>

record 'i dataframe =
  df_columns :: "string list"
  df_rows :: "('i \<times> real list) list"

text \<open>
  A label of a row index with one level: an integer, or a label that is not a number
  (a name, the coordinates of a genomic bin), written as a string. The frames that
  \<^verbatim>\<open>run_HSR\<close> and \<^verbatim>\<open>run_HSR_replicates\<close> read carry such an index, because pandas looks
  integers up in it.
\<close>

datatype label = IntLabel int | Label string

definition df_index :: "'i dataframe \<Rightarrow> 'i list" where
  "df_index df = map fst (df_rows df)"

definition df_values :: "'i dataframe \<Rightarrow> matrix" where
  "df_values df = map snd (df_rows df)"

definition bind_err :: "error + 'a \<Rightarrow> ('a \<Rightarrow> error + 'b) \<Rightarrow> error + 'b" where
  "bind_err m f = (case m of Inl e \<Rightarrow> Inl e | Inr x \<Rightarrow> f x)"

section \<open>The libraries\<close>

text \<open>
  scikit-learn, numpy's random generators and the regression solver are not part of the
  repository: they are parameters of the model, collected in one record, together with
  the one point where the versions of pandas differ for the source. \<open>rng\<close> is the
  state of numpy's global random generator, which a call without \<open>random_state\<close> reads
  and advances.
\<close>

type_synonym rng = nat

datatype loss = LossName string | LossBeta real

text \<open>The keyword arguments of \<^verbatim>\<open>non_negative_factorization\<close> and of \<^verbatim>\<open>NMF\<close>.\<close>

record nnf_args =
  kw_X :: matrix
  kw_W :: "matrix option"
  kw_H :: "matrix option"
  kw_n_components :: nat
  kw_init :: "string option"
  kw_update_H :: bool
  kw_solver :: string
  kw_beta_loss :: loss
  kw_max_iter :: nat
  kw_alpha_W :: real
  kw_alpha_H :: "real option"
  kw_random_state :: "int option"

text \<open>A call with scikit-learn's defaults for every keyword the source leaves out.\<close>

definition nnf_call :: "matrix \<Rightarrow> nat \<Rightarrow> nnf_args" where
  "nnf_call X n =
     \<lparr>kw_X = X, kw_W = None, kw_H = None, kw_n_components = n, kw_init = None,
      kw_update_H = True, kw_solver = ''cd'', kw_beta_loss = LossName ''frobenius'',
      kw_max_iter = 200, kw_alpha_W = 0, kw_alpha_H = None, kw_random_state = None\<rparr>"

record sklib =
  RandomState_choice :: "int \<Rightarrow> nat \<Rightarrow> nat \<Rightarrow> error + nat list"
  NMF_fit_transform :: "nnf_args \<Rightarrow> error + (matrix \<times> matrix)"
  non_negative_factorization :: "rng \<Rightarrow> nnf_args \<Rightarrow> error + (matrix \<times> matrix \<times> rng)"
  random_uniform :: "rng \<Rightarrow> real \<Rightarrow> real \<Rightarrow> nat \<times> nat \<Rightarrow> matrix \<times> rng"
  LinearRegression_fit :: "real list \<Rightarrow> real list \<Rightarrow> error + real"
  positional_fallback :: bool

text \<open>
  \<^item> \<open>RandomState_choice lib seed m n\<close>: \<^verbatim>\<open>RandomState(seed).choice(m, size=n, replace=False)\<close>,
    the row positions \<^verbatim>\<open>DataFrame.sample\<close> takes;
  \<^item> \<open>NMF_fit_transform lib args\<close>: \<^verbatim>\<open>NMF(...).fit_transform(X)\<close> together with
    \<^verbatim>\<open>components_\<close>;
  \<^item> \<open>non_negative_factorization lib g args\<close>: the factors \<open>W\<close>, \<open>H\<close> (the iteration count
    is dropped, the source never reads it) and the generator's next state;
  \<^item> \<open>random_uniform lib g lo hi (r, c)\<close>: \<^verbatim>\<open>np.random.uniform(lo, hi, size=(r, c))\<close>;
  \<^item> \<open>LinearRegression_fit lib xs ys\<close>: the coefficient of
    \<^verbatim>\<open>LinearRegression(fit_intercept=False).fit\<close> on one feature;
  \<^item> \<open>positional_fallback lib\<close>: whether \<^verbatim>\<open>series[keys]\<close> reads integer keys as positions
    when the index of the series holds no integer (pandas before 3.0 does, pandas 3.0
    looks them up as labels on every index).
\<close>

section \<open>numpy and pandas operations\<close>

definition startswith :: "string \<Rightarrow> string \<Rightarrow> bool" where
  "startswith c p \<longleftrightarrow> take (length p) c = p"

text \<open>
  \<^verbatim>\<open>df.loc[:, names]\<close> for a list of names taken from the frame's own columns, in the
  frame's order: the entries of each row under those labels.
\<close>

definition row_at :: "string list \<Rightarrow> string list \<Rightarrow> real list \<Rightarrow> real list" where
  "row_at columns names row = map snd (filter (\<lambda>cv. fst cv \<in> set names) (zip columns row))"

definition loc_columns :: "'i dataframe \<Rightarrow> string list \<Rightarrow> matrix" where
  "loc_columns df names = map (row_at (df_columns df) names) (df_values df)"

text \<open>
  \<^verbatim>\<open>A.dot(B)\<close>: every row of \<open>A\<close> needs as many entries as \<open>B\<close> has rows.
\<close>

definition np_dot :: "matrix \<Rightarrow> matrix \<Rightarrow> error + matrix" where
  "np_dot A B =
     (if list_all (\<lambda>r. length r = length B) A
      then Inr (map (\<lambda>r. map (\<lambda>col. sum_list (map2 (*) r col)) (transpose B)) A)
      else Inl ValueError)"

text \<open>
  \<^verbatim>\<open>A - B\<close> on arrays of one shape. Shapes that differ are a \<open>ValueError\<close> (numpy would
  still stretch an axis of length one; the factors scikit-learn returns never need it).
\<close>

definition same_shape :: "matrix \<Rightarrow> matrix \<Rightarrow> bool" where
  "same_shape A B \<longleftrightarrow> length A = length B \<and> list_all2 (\<lambda>a b. length a = length b) A B"

definition np_subtract :: "matrix \<Rightarrow> matrix \<Rightarrow> error + matrix" where
  "np_subtract A B =
     (if same_shape A B then Inr (map2 (\<lambda>a b. map2 (-) a b) A B) else Inl ValueError)"

definition np_maximum :: "matrix \<Rightarrow> real \<Rightarrow> matrix" where
  "np_maximum A c = map (map (\<lambda>v. max v c)) A"

definition np_zeros :: "nat \<Rightarrow> nat \<Rightarrow> matrix" where
  "np_zeros r c = replicate r (replicate c 0)"

text \<open>
  \<^verbatim>\<open>M[r, a:b] = V\<close> for a two-dimensional \<open>V\<close>: the slice is cut to the row's length, \<open>V\<close>
  needs one row, as long as the slice or of length one (then repeated).
\<close>

definition assign_slice :: "matrix \<Rightarrow> nat \<Rightarrow> nat \<Rightarrow> nat \<Rightarrow> matrix \<Rightarrow> error + matrix" where
  "assign_slice M r a b V =
     (if length M \<le> r then Inl IndexError
      else let row = M ! r; lo = min a (length row); hi = max lo (min b (length row)) in
        case V of
          [v] \<Rightarrow>
            if length v = hi - lo then Inr (M[r := take lo row @ v @ drop hi row])
            else if length v = 1
              then Inr (M[r := take lo row @ replicate (hi - lo) (hd v) @ drop hi row])
            else Inl ValueError
        | _ \<Rightarrow> Inl ValueError)"

text \<open>\<^verbatim>\<open>M[r, :] = v\<close> for a one-dimensional \<open>v\<close>.\<close>

definition assign_row :: "matrix \<Rightarrow> nat \<Rightarrow> real list \<Rightarrow> error + matrix" where
  "assign_row M r v = assign_slice M r 0 (length (M ! r)) [v]"

text \<open>
  \<^verbatim>\<open>pd.DataFrame(values, index=index, columns=columns)\<close>: the labels must fit the shape.
\<close>

definition DataFrame :: "matrix \<Rightarrow> 'i list \<Rightarrow> string list \<Rightarrow> error + 'i dataframe" where
  "DataFrame vals index columns =
     (if length vals = length index \<and> list_all (\<lambda>r. length r = length columns) vals
      then Inr \<lparr>df_columns = columns, df_rows = zip index vals\<rparr>
      else Inl ValueError)"

text \<open>
  \<^verbatim>\<open>df.sample(n, random_state=seed)\<close>, without replacement: pandas refuses a negative \<open>n\<close>
  and an \<open>n\<close> above the number of rows, then takes the rows at the drawn positions.
\<close>

definition df_sample :: "sklib \<Rightarrow> 'i dataframe \<Rightarrow> int \<Rightarrow> int \<Rightarrow> error + 'i dataframe" where
  "df_sample lib df n seed =
     (if n < 0 \<or> int (length (df_rows df)) < n then Inl ValueError
      else bind_err (RandomState_choice lib seed (length (df_rows df)) (nat n)) (\<lambda>ixs.
        if list_all (\<lambda>i. i < length (df_rows df)) ixs
        then Inr (df\<lparr>df_rows := map (\<lambda>i. df_rows df ! i) ixs\<rparr>)
        else Inl IndexError))"

section \<open>extract_mixing_matrix\<close>

text \<open>
  \<^verbatim>\<open>[c for c in data_df.columns if c.startswith(conditions_list[0])]\<close>: the subscript is
  evaluated once per column, so an empty conditions list raises only when there is a
  column.
\<close>

definition control_columns :: "'i dataframe \<Rightarrow> string list \<Rightarrow> error + string list" where
  "control_columns data_df conditions_list =
     (if df_columns data_df = [] then Inr []
      else case conditions_list of
             [] \<Rightarrow> Inl IndexError
           | c0 # _ \<Rightarrow> Inr (filter (\<lambda>c. startswith c c0) (df_columns data_df)))"

text \<open>Lines 26 to 28: the rows with enough control coverage, and the sample of them.\<close>

definition dsel :: "'i dataframe \<Rightarrow> string list \<Rightarrow> real \<Rightarrow> 'i dataframe" where
  "dsel data_df cols control_cov_threshold =
     data_df\<lparr>df_rows :=
       filter (\<lambda>r. list_ex (\<lambda>v. control_cov_threshold < v) (row_at (df_columns data_df) cols (snd r)))
         (df_rows data_df)\<rparr>"

definition select_train ::
  "sklib \<Rightarrow> 'i dataframe \<Rightarrow> string list \<Rightarrow> real \<Rightarrow> int \<Rightarrow> int \<Rightarrow> error + 'i dataframe" where
  "select_train lib data_df conditions_list control_cov_threshold n_train_bins seed =
     bind_err (control_columns data_df conditions_list) (\<lambda>cols.
       df_sample lib (dsel data_df cols control_cov_threshold) n_train_bins seed)"

text \<open>
  Line 32 (and 104): the estimator \<^verbatim>\<open>NMF(n_components=1, init='random', random_state=0,
  beta_loss=1, solver="mu", alpha_W=alpha_W, alpha_H=alpha_H)\<close>, as the arguments its
  \<^verbatim>\<open>fit_transform(X)\<close> runs with.
\<close>

definition NMF_model :: "real \<Rightarrow> real \<Rightarrow> matrix \<Rightarrow> nnf_args" where
  "NMF_model alpha_W alpha_H X =
     (nnf_call X 1)
       \<lparr>kw_init := Some ''random'', kw_random_state := Some 0,
        kw_beta_loss := LossBeta 1, kw_solver := ''mu'',
        kw_alpha_W := alpha_W, kw_alpha_H := Some alpha_H\<rparr>"

text \<open>
  Lines 32 to 47: the unspecific signal from the control columns, then its coefficients
  for the treatment columns with the signal held fixed.
\<close>

definition unspecific_coefs ::
  "sklib \<Rightarrow> rng \<Rightarrow> 'i dataframe \<Rightarrow> 'i dataframe \<Rightarrow> string list \<Rightarrow> real \<Rightarrow> real
     \<Rightarrow> error + (matrix \<times> real list \<times> rng)" where
  "unspecific_coefs lib g data_df train_data conditions_list alpha_W alpha_H =
     bind_err (control_columns data_df conditions_list) (\<lambda>control_cols.
       let treatment_cols = filter (\<lambda>c. c \<notin> set control_cols) (df_columns data_df) in
       bind_err (NMF_fit_transform lib
           (NMF_model alpha_W alpha_H (loc_columns train_data control_cols)))
         (\<lambda>(W_unspec, H_unspec).
       bind_err (non_negative_factorization lib g
           ((nnf_call (transpose (loc_columns train_data treatment_cols)) 1)
              \<lparr>kw_init := Some ''custom'', kw_H := Some [concat W_unspec],
               kw_update_H := False, kw_alpha_W := alpha_W,
               kw_beta_loss := LossBeta 1, kw_solver := ''mu''\<rparr>))
         (\<lambda>(W_treat_uns, H_treat_uns, g').
       Inr (W_unspec, concat H_unspec @ concat (transpose W_treat_uns), g'))))"

text \<open>Lines 51 and 52: what is left of the training data above the unspecific part.\<close>

definition specific_data_mat :: "matrix \<Rightarrow> matrix \<Rightarrow> real list \<Rightarrow> error + matrix" where
  "specific_data_mat train_values W_unspec H_unspec_coefs =
     bind_err (np_dot W_unspec [H_unspec_coefs]) (\<lambda>unspec.
     bind_err (np_subtract train_values unspec) (\<lambda>d.
       Inr (np_maximum d 0)))"

text \<open>
  Lines 65 to 74, the loop over the treatment conditions: \<open>cs\<close> holds the replicate
  counts still to come (\<^verbatim>\<open>histone_n_replicates[i:]\<close>, as long as the conditions left).
\<close>

fun specific_loop ::
  "sklib \<Rightarrow> real \<Rightarrow> real \<Rightarrow> matrix \<Rightarrow> nat list \<Rightarrow> nat \<Rightarrow> nat \<Rightarrow> matrix \<Rightarrow> rng
     \<Rightarrow> error + (matrix \<times> rng)" where
  "specific_loop lib alpha_W alpha_H sdm [] i ix mixing_matrix g = Inr (mixing_matrix, g)"
| "specific_loop lib alpha_W alpha_H sdm (c # cs) i ix mixing_matrix g =
     bind_err (non_negative_factorization lib g
         ((nnf_call (map (\<lambda>r. take c (drop ix r)) sdm) 1)
            \<lparr>kw_beta_loss := LossBeta 1, kw_solver := ''mu'',
             kw_alpha_W := alpha_W, kw_alpha_H := Some alpha_H\<rparr>))
       (\<lambda>(W_spec, H_spec, g').
     bind_err (assign_slice mixing_matrix (i + 1) ix (ix + c) H_spec) (\<lambda>mixing_matrix'.
       specific_loop lib alpha_W alpha_H sdm cs (i + 1) (ix + c) mixing_matrix' g'))"

text \<open>\<^verbatim>\<open>[conditions_counts_ref[c] for c in conditions_list]\<close>: a missing key raises.\<close>

fun lookup_all :: "(string \<rightharpoonup> nat) \<Rightarrow> string list \<Rightarrow> error + nat list" where
  "lookup_all m [] = Inr []"
| "lookup_all m (c # cs) =
     (case m c of
        None \<Rightarrow> Inl KeyError
      | Some n \<Rightarrow> bind_err (lookup_all m cs) (\<lambda>ns. Inr (n # ns)))"

definition extract_mixing_matrix ::
  "sklib \<Rightarrow> rng \<Rightarrow> 'i dataframe \<Rightarrow> string list \<Rightarrow> (string \<rightharpoonup> nat) \<Rightarrow> real \<Rightarrow> real
     \<Rightarrow> real \<Rightarrow> int \<Rightarrow> int \<Rightarrow> error + (string dataframe \<times> rng)" where
  "extract_mixing_matrix lib g data_df conditions_list conditions_counts_ref alpha_W alpha_H
       control_cov_threshold n_train_bins seed =
     bind_err (select_train lib data_df conditions_list control_cov_threshold n_train_bins seed)
       (\<lambda>train_data.
     bind_err (unspecific_coefs lib g data_df train_data conditions_list alpha_W alpha_H)
       (\<lambda>(W_unspec, H_unspec_coefs, g1).
     bind_err (specific_data_mat (df_values train_data) W_unspec H_unspec_coefs) (\<lambda>sdm.
     let treatment_conditions = drop 1 conditions_list in
     bind_err (lookup_all conditions_counts_ref conditions_list) (\<lambda>n_replicates.
     case n_replicates of
       [] \<Rightarrow> Inl IndexError
     | n_control_replicates # histone_n_replicates \<Rightarrow>
         bind_err (assign_row (np_zeros (length conditions_list) (sum_list n_replicates)) 0
                     H_unspec_coefs) (\<lambda>mixing_matrix.
         bind_err (specific_loop lib alpha_W alpha_H sdm histone_n_replicates 0
                     n_control_replicates mixing_matrix g1) (\<lambda>(mixing_matrix', g2).
         bind_err (DataFrame mixing_matrix' (''unspecific'' # treatment_conditions)
                     (df_columns train_data)) (\<lambda>mm.
           Inr (mm, g2))))))))"


section \<open>extract_mixing_matrix_shared_unspecific\<close>

text \<open>
  Lines 98 to 110 are those of \<^verbatim>\<open>extract_mixing_matrix\<close>; everything after is commented
  out, up to \<^verbatim>\<open>return mm\<close>, a name bound neither in the function nor in the module.
\<close>

definition extract_mixing_matrix_shared_unspecific ::
  "sklib \<Rightarrow> rng \<Rightarrow> 'i dataframe \<Rightarrow> string list \<Rightarrow> (string \<rightharpoonup> nat) \<Rightarrow> real \<Rightarrow> real
     \<Rightarrow> real \<Rightarrow> int \<Rightarrow> int \<Rightarrow> error + (string dataframe \<times> rng)" where
  "extract_mixing_matrix_shared_unspecific lib g data_df conditions_list conditions_counts_ref
       alpha_W alpha_H control_cov_threshold n_train_bins seed =
     bind_err (select_train lib data_df conditions_list control_cov_threshold n_train_bins seed)
       (\<lambda>train_data.
     bind_err (control_columns data_df conditions_list) (\<lambda>control_cols.
     bind_err (NMF_fit_transform lib
         (NMF_model alpha_W alpha_H (loc_columns train_data control_cols)))
       (\<lambda>(W_unspec, H_unspec).
     Inl NameError)))"

section \<open>extract_signal\<close>

text \<open>Python's \<^verbatim>\<open>range(start, stop, step)\<close> and the slice \<^verbatim>\<open>xs[a:b]\<close>.\<close>

definition py_range :: "int \<Rightarrow> int \<Rightarrow> int \<Rightarrow> error + int list" where
  "py_range start stop step =
     (if step = 0 then Inl ValueError
      else if 0 < step
        then Inr (map (\<lambda>i. start + int i * step)
                    [0..<nat ((stop - start + step - 1) div step)])
      else Inr (map (\<lambda>i. start + int i * step)
                  [0..<nat ((start - stop - step - 1) div (- step))]))"

definition py_slice :: "'a list \<Rightarrow> int \<Rightarrow> int \<Rightarrow> 'a list" where
  "py_slice xs a b =
     (let n = int (length xs);
          lo = (if a < 0 then max 0 (a + n) else min a n);
          hi = (if b < 0 then max 0 (b + n) else min b n)
      in take (nat (hi - lo)) (drop (nat lo) xs))"

text \<open>
  \<^verbatim>\<open>np.split(ary, indices)\<close> along the rows: the pieces between consecutive indices, the
  first from 0 and the last to the end.
\<close>

definition np_split :: "'a list \<Rightarrow> int list \<Rightarrow> 'a list list" where
  "np_split ary indices =
     map (\<lambda>ab. py_slice ary (fst ab) (snd ab))
       (zip (0 # indices) (indices @ [int (length ary)]))"

text \<open>\<^verbatim>\<open>np.vstack\<close>: at least one block, and all rows of one width.\<close>

definition np_vstack :: "matrix list \<Rightarrow> error + matrix" where
  "np_vstack blocks =
     (if blocks = [] then Inl ValueError
      else if list_all (\<lambda>r. length r = length (hd (concat blocks))) (concat blocks)
        then Inr (concat blocks)
      else Inl ValueError)"

text \<open>
  Lines 178 to 181: the arguments of the factorization of one chunk,
  \<^verbatim>\<open>non_negative_factorization(ck, W, mmatrix.values, n_components=len(mmatrix),
  init='custom', random_state=seed, update_H=False, beta_loss="kullback-leibler",
  solver="mu", alpha_W=alpha_W, max_iter=500)\<close>.
\<close>

definition signal_args :: "matrix \<Rightarrow> real \<Rightarrow> int \<Rightarrow> matrix \<Rightarrow> matrix \<Rightarrow> nnf_args" where
  "signal_args mvalues alpha_W seed ck W =
     (nnf_call ck (length mvalues))
       \<lparr>kw_W := Some W, kw_H := Some mvalues, kw_init := Some ''custom'',
        kw_random_state := Some seed, kw_update_H := False,
        kw_beta_loss := LossName ''kullback-leibler'', kw_solver := ''mu'',
        kw_alpha_W := alpha_W, kw_max_iter := 500\<rparr>"

text \<open>Lines 173 to 182: the loop over the chunks, left at the first empty one.\<close>

fun signal_loop ::
  "sklib \<Rightarrow> matrix \<Rightarrow> real \<Rightarrow> int \<Rightarrow> matrix list \<Rightarrow> matrix list \<Rightarrow> rng
     \<Rightarrow> error + (matrix list \<times> rng)" where
  "signal_loop lib mvalues alpha_W seed [] processed_W g = Inr (processed_W, g)"
| "signal_loop lib mvalues alpha_W seed (ck # cks) processed_W g =
     (if length ck < 1 then Inr (processed_W, g)
      else case random_uniform lib g 0 0.1 (length ck, length mvalues) of
        (W, g1) \<Rightarrow>
          bind_err (non_negative_factorization lib g1 (signal_args mvalues alpha_W seed ck W))
            (\<lambda>(ck_W, H, g2).
          signal_loop lib mvalues alpha_W seed cks (processed_W @ [ck_W]) g2))"

definition extract_signal ::
  "sklib \<Rightarrow> rng \<Rightarrow> 'i dataframe \<Rightarrow> 'j dataframe \<Rightarrow> string list \<Rightarrow> int \<Rightarrow> real \<Rightarrow> int
     \<Rightarrow> error + ('i dataframe \<times> rng)" where
  "extract_signal lib g data_df mmatrix conditions_list chunk_size alpha_W seed =
     bind_err (py_range chunk_size (int (length (df_rows data_df)) + chunk_size) chunk_size)
       (\<lambda>indices.
     bind_err (signal_loop lib (df_values mmatrix) alpha_W seed
                 (np_split (df_values data_df) indices) [] g)
       (\<lambda>(processed_W, g').
     bind_err (np_vstack processed_W) (\<lambda>processed_W'.
     bind_err (DataFrame processed_W' (df_index data_df) conditions_list) (\<lambda>out.
       Inr (out, g')))))"

section \<open>run_HSR and run_HSR_replicates\<close>

text \<open>\<^verbatim>\<open>df.loc[:, name]\<close>: the column under a label, \<open>KeyError\<close> without it.\<close>

definition col_pos :: "string \<Rightarrow> string list \<Rightarrow> nat" where
  "col_pos name columns = length (takeWhile (\<lambda>c. c \<noteq> name) columns)"

definition df_column :: "'i dataframe \<Rightarrow> string \<Rightarrow> error + real list" where
  "df_column df name =
     (if name \<in> set (df_columns df)
      then Inr (map (\<lambda>r. snd r ! col_pos name (df_columns df)) (df_rows df))
      else Inl KeyError)"

text \<open>\<^verbatim>\<open>df.iloc[r, c]\<close>.\<close>

definition iloc :: "'i dataframe \<Rightarrow> nat \<Rightarrow> nat \<Rightarrow> error + real" where
  "iloc df r c =
     (if r < length (df_rows df) \<and> c < length (df_columns df)
      then Inr (snd (df_rows df ! r) ! c) else Inl IndexError)"

text \<open>
  \<^verbatim>\<open>.apply(np.log)\<close>: the logarithm of each entry; a number that is not positive has no
  finite logarithm.
\<close>

definition np_log :: "real list \<Rightarrow> error + real list" where
  "np_log xs = (if list_all (\<lambda>x. 0 < x) xs then Inr (map ln xs) else Inl NonFinite)"

definition log_transform :: "real \<Rightarrow> real list \<Rightarrow> error + real list" where
  "log_transform eps xs = np_log (map (\<lambda>x. max eps x) xs)"

text \<open>\<^verbatim>\<open>series[bl_mask]\<close> for a boolean array, which must be as long as the series.\<close>

definition mask_select :: "bool list \<Rightarrow> 'a list \<Rightarrow> error + 'a list" where
  "mask_select bl_mask xs =
     (if length bl_mask = length xs then Inr (map snd (filter fst (zip bl_mask xs)))
      else Inl IndexError)"

text \<open>
  \<^verbatim>\<open>np.median\<close>; of nothing it is \<open>nan\<close> (here \<open>None\<close>), and no number is greater than \<open>nan\<close>.
\<close>

definition np_median :: "real list \<Rightarrow> real option" where
  "np_median xs =
     (if xs = [] then None
      else let s = sort xs; n = length xs in
        Some (if odd n then s ! (n div 2) else (s ! (n div 2 - 1) + s ! (n div 2)) / 2))"

definition above :: "real \<Rightarrow> real option \<Rightarrow> bool" where
  "above x m = (case m of None \<Rightarrow> False | Some v \<Rightarrow> v < x)"

text \<open>
  Lines 212 to 215 (and 266 to 269): the fit on the bins that the mask keeps and where
  both transformed series lie above their median. \<^verbatim>\<open>np.where\<close> gives positions in the
  masked series.
\<close>

definition fit_ixs :: "real list \<Rightarrow> real list \<Rightarrow> nat list" where
  "fit_ixs cm tm =
     filter (\<lambda>i. above (cm ! i) (np_median cm) \<and> above (tm ! i) (np_median tm))
       [0..<length cm]"

text \<open>
  \<^verbatim>\<open>series[keys]\<close> for an array of integers, on a series given as its rows, each a label
  with its number. When the index of the series holds an integer, pandas takes the keys
  as labels (\<^verbatim>\<open>series.loc[keys]\<close>): every key gives the rows under that label, in the
  order of the keys, and a key that labels no row is a \<open>KeyError\<close>. When the index holds
  no integer, pandas before 3.0 takes the keys as positions (\<^verbatim>\<open>series.iloc[keys]\<close>);
  pandas 3.0 looks them up as labels there too.
\<close>

definition holds_integer :: "label list \<Rightarrow> bool" where
  "holds_integer index = list_ex (\<lambda>l. case l of IntLabel _ \<Rightarrow> True | Label _ \<Rightarrow> False) index"

definition loc_keys :: "(label \<times> real) list \<Rightarrow> nat list \<Rightarrow> error + real list" where
  "loc_keys series keys =
     (if list_all (\<lambda>k. IntLabel (int k) \<in> fst ` set series) keys
      then Inr (concat (map (\<lambda>k. map snd (filter (\<lambda>lv. fst lv = IntLabel (int k)) series)) keys))
      else Inl KeyError)"

definition iloc_keys :: "(label \<times> real) list \<Rightarrow> nat list \<Rightarrow> error + real list" where
  "iloc_keys series keys =
     (if list_all (\<lambda>k. k < length series) keys then Inr (map (\<lambda>k. snd (series ! k)) keys)
      else Inl IndexError)"

definition series_getitem ::
  "sklib \<Rightarrow> (label \<times> real) list \<Rightarrow> nat list \<Rightarrow> error + real list" where
  "series_getitem lib series keys =
     (if positional_fallback lib \<and> \<not> holds_integer (map fst series)
      then iloc_keys series keys else loc_keys series keys)"

text \<open>
  The regression of lines 214 and 215 (268 and 269). \<open>index\<close> is the index of the frame,
  which both series carry. The control values are read from the array of the masked
  series, \<^verbatim>\<open>control_transf[bl_mask].values[fit_ixs]\<close>, at the positions. The treatment
  values are read from the masked series itself, \<^verbatim>\<open>treatment_transf[bl_mask][fit_ixs]\<close>,
  where the same integers are keys: on an index of integers they are labels, so that the
  fit pairs the control value at position \<open>i\<close> with the treatment value of the bin
  labelled \<open>i\<close>, and fails with \<open>KeyError\<close> when the mask has dropped that bin.
\<close>

definition HSR_fit ::
  "sklib \<Rightarrow> label list \<Rightarrow> bool list \<Rightarrow> real list \<Rightarrow> real list \<Rightarrow> error + real" where
  "HSR_fit lib index bl_mask control_transf treatment_transf =
     bind_err (mask_select bl_mask control_transf) (\<lambda>cm.
     bind_err (mask_select bl_mask (zip index treatment_transf)) (\<lambda>tser.
     bind_err (series_getitem lib tser (fit_ixs cm (map snd tser))) (\<lambda>y.
       LinearRegression_fit lib (map (\<lambda>i. cm ! i) (fit_ixs cm (map snd tser))) y)))"

text \<open>
  Lines 217 to 221 (and 271 to 275): the prediction for every bin, floored at
  \<open>log 0.5\<close>, then the track and the fitted baseline. The series and the prediction
  must have one length to be subtracted.
\<close>

definition HSR_predict :: "real \<Rightarrow> real list \<Rightarrow> real list \<Rightarrow> error + (real list \<times> real list)" where
  "HSR_predict reg control_transf treatment_transf =
     (let log_pred = map (\<lambda>x. max (reg * x) (ln 0.5)) control_transf;
          pred = map exp log_pred
      in if length treatment_transf = length log_pred
         then Inr (map2 (\<lambda>t p. exp (t - p)) treatment_transf log_pred, pred)
         else Inl ValueError)"

text \<open>\<^verbatim>\<open>out_df[name] = column\<close>: a new last column, or the column of that name replaced.\<close>

definition set_column ::
  "(string \<times> real list) list \<Rightarrow> string \<Rightarrow> real list \<Rightarrow> (string \<times> real list) list" where
  "set_column out name col =
     (if name \<in> fst ` set out
      then map (\<lambda>nc. if fst nc = name then (name, col) else nc) out
      else out @ [(name, col)])"

text \<open>The body of the loop of \<^verbatim>\<open>run_HSR\<close> for one treatment condition.\<close>

definition HSR_condition ::
  "sklib \<Rightarrow> label dataframe \<Rightarrow> bool list \<Rightarrow> real \<Rightarrow> real list \<Rightarrow> string
     \<Rightarrow> error + (real list \<times> real list)" where
  "HSR_condition lib wmat bl_mask eps control_transf treatment_cond =
     bind_err (df_column wmat treatment_cond) (\<lambda>col.
     bind_err (log_transform eps col) (\<lambda>treatment_transf.
     bind_err (HSR_fit lib (df_index wmat) bl_mask control_transf treatment_transf) (\<lambda>reg.
       HSR_predict reg control_transf treatment_transf)))"

fun HSR_loop ::
  "sklib \<Rightarrow> label dataframe \<Rightarrow> bool list \<Rightarrow> real \<Rightarrow> real list \<Rightarrow> string list
     \<Rightarrow> (string \<times> real list) list \<Rightarrow> error + (string \<times> real list) list" where
  "HSR_loop lib wmat bl_mask eps control_transf [] out_df = Inr out_df"
| "HSR_loop lib wmat bl_mask eps control_transf (treatment_cond # rest) out_df =
     bind_err (HSR_condition lib wmat bl_mask eps control_transf treatment_cond)
       (\<lambda>(track, pred).
     HSR_loop lib wmat bl_mask eps control_transf rest
       (set_column (set_column out_df (treatment_cond @ '' HSR Value'') track)
          (treatment_cond @ '' fit'') pred))"

text \<open>
  The result is the output frame column by column, on the index of \<open>wmat\<close>. (The mean
  of line 210 is never used.)
\<close>

definition run_HSR ::
  "sklib \<Rightarrow> label dataframe \<Rightarrow> bool list \<Rightarrow> string list \<Rightarrow> real
     \<Rightarrow> error + (string \<times> real list) list" where
  "run_HSR lib wmat bl_mask conditions_list eps =
     (case conditions_list of
        [] \<Rightarrow> Inl IndexError
      | control_condition # treatments \<Rightarrow>
          bind_err (df_column wmat control_condition) (\<lambda>col.
          bind_err (log_transform eps col) (\<lambda>control_transf.
            HSR_loop lib wmat bl_mask eps control_transf treatments [])))"

text \<open>
  Line 261: the replicate's own signal. The two series are subtracted label by label;
  the model follows frames that share their index, which is then the index of the
  difference and of its logarithm.
\<close>

definition sample_specific_signal :: "real \<Rightarrow> real list \<Rightarrow> real \<Rightarrow> real list \<Rightarrow> real list" where
  "sample_specific_signal eps sample_data tissue_coef tissue_signal =
     map2 (\<lambda>s t. max eps (s - tissue_coef * t)) sample_data tissue_signal"

text \<open>The body of the loop of \<^verbatim>\<open>run_HSR_replicates\<close> for the \<open>i\<close>-th treatment sample.\<close>

definition HSR_replicate ::
  "sklib \<Rightarrow> label dataframe \<Rightarrow> label dataframe \<Rightarrow> 'j dataframe \<Rightarrow> bool list \<Rightarrow> real \<Rightarrow> real list
     \<Rightarrow> real list \<Rightarrow> nat \<Rightarrow> nat \<Rightarrow> string \<Rightarrow> error + (real list \<times> real list)" where
  "HSR_replicate lib replicates wmat mmat bl_mask eps control_transf tissue_signal
       n_control_samples i treatment_sample =
     bind_err (df_column replicates treatment_sample) (\<lambda>sample_data.
     bind_err (iloc mmat 0 (i + n_control_samples)) (\<lambda>tissue_coef.
     if df_index replicates \<noteq> df_index wmat then Inl Misaligned
     else
     bind_err (np_log (sample_specific_signal eps sample_data tissue_coef tissue_signal))
       (\<lambda>treatment_transf.
     bind_err (HSR_fit lib (df_index replicates) bl_mask control_transf treatment_transf)
       (\<lambda>reg.
       HSR_predict reg control_transf treatment_transf))))"

fun HSR_replicates_loop ::
  "sklib \<Rightarrow> label dataframe \<Rightarrow> label dataframe \<Rightarrow> 'j dataframe \<Rightarrow> bool list \<Rightarrow> real \<Rightarrow> real list
     \<Rightarrow> real list \<Rightarrow> nat \<Rightarrow> nat \<Rightarrow> string list \<Rightarrow> (string \<times> real list) list
     \<Rightarrow> error + (string \<times> real list) list" where
  "HSR_replicates_loop lib replicates wmat mmat bl_mask eps control_transf tissue_signal
       n_control_samples i [] out_df = Inr out_df"
| "HSR_replicates_loop lib replicates wmat mmat bl_mask eps control_transf tissue_signal
       n_control_samples i (treatment_sample # rest) out_df =
     bind_err (HSR_replicate lib replicates wmat mmat bl_mask eps control_transf tissue_signal
                 n_control_samples i treatment_sample)
       (\<lambda>(track, pred).
     HSR_replicates_loop lib replicates wmat mmat bl_mask eps control_transf tissue_signal
       n_control_samples (i + 1) rest
       (set_column (set_column out_df (treatment_sample @ '' HSR Value'') track)
          (treatment_sample @ '' fit'') pred))"

definition run_HSR_replicates ::
  "sklib \<Rightarrow> label dataframe \<Rightarrow> label dataframe \<Rightarrow> 'j dataframe \<Rightarrow> bool list \<Rightarrow> string list
     \<Rightarrow> (string \<rightharpoonup> nat) \<Rightarrow> real \<Rightarrow> error + (string \<times> real list) list" where
  "run_HSR_replicates lib replicates wmat mmat bl_mask conditions_list conditions_counts_ref eps =
     (case conditions_list of
        [] \<Rightarrow> Inl IndexError
      | control_condition # _ \<Rightarrow>
          (case conditions_counts_ref control_condition of
             None \<Rightarrow> Inl KeyError
           | Some n_control_samples \<Rightarrow>
               bind_err (df_column wmat control_condition) (\<lambda>tissue_signal.
               bind_err (log_transform eps tissue_signal) (\<lambda>control_transf.
                 HSR_replicates_loop lib replicates wmat mmat bl_mask eps control_transf
                   tissue_signal n_control_samples 0
                   (filter (\<lambda>c. \<not> startswith c control_condition) (df_columns replicates))
                   []))))"

section \<open>A stand-in library and sample inputs\<close>

text \<open>A matrix without negative entries.\<close>

definition nonneg :: "matrix \<Rightarrow> bool" where
  "nonneg A \<longleftrightarrow> list_all (list_all (\<lambda>v. 0 \<le> v)) A"

text \<open>
  A small library to run the model on sample inputs. Like scikit-learn it refuses an
  empty or negative matrix and a negative fixed factor, and returns factors of the
  right shape without negative entries: \<open>W\<close> holds the mean of each row, a factor \<open>H\<close>
  that is not given holds ones; an initial \<open>W\<close> is not used. The generator draws the
  first positions; the regression is least squares through the origin, on as many
  targets as samples; integer keys fall back to positions as in pandas before 3.0.
\<close>

definition ref_accepts :: "nnf_args \<Rightarrow> bool" where
  "ref_accepts args \<longleftrightarrow>
     kw_X args \<noteq> [] \<and> list_all (\<lambda>r. r \<noteq> []) (kw_X args) \<and> nonneg (kw_X args) \<and>
     (case kw_H args of None \<Rightarrow> True | Some H \<Rightarrow> nonneg H)"

definition ref_W :: "nnf_args \<Rightarrow> matrix" where
  "ref_W args =
     map (\<lambda>r. replicate (kw_n_components args) (sum_list r / real (length r))) (kw_X args)"

definition ref_H :: "nnf_args \<Rightarrow> matrix" where
  "ref_H args =
     (case kw_H args of
        Some H \<Rightarrow> H
      | None \<Rightarrow> replicate (kw_n_components args) (replicate (length (hd (kw_X args))) 1))"

definition ref_lib :: sklib where
  "ref_lib =
     \<lparr>RandomState_choice = (\<lambda>seed m n. if seed < 0 then Inl ValueError else Inr [0..<n]),
      NMF_fit_transform = (\<lambda>args.
        if ref_accepts args then Inr (ref_W args, ref_H args) else Inl ValueError),
      non_negative_factorization = (\<lambda>g args.
        if ref_accepts args then Inr (ref_W args, ref_H args, g) else Inl ValueError),
      random_uniform = (\<lambda>g lo hi rc.
        (replicate (fst rc) (replicate (snd rc) (lo + (hi - lo) / real (g + 2))), Suc g)),
      LinearRegression_fit = (\<lambda>xs ys.
        if xs = [] \<or> length xs \<noteq> length ys then Inl ValueError
        else Inr (if sum_list (map2 (*) xs xs) = 0 then 0
                  else sum_list (map2 (*) xs ys) / sum_list (map2 (*) xs xs))),
      positional_fallback = True\<rparr>"

text \<open>
  A coverage matrix of three bins with one control sample, one replicate of condition
  \<open>A\<close> and two of condition \<open>B\<close>; the control lies above the threshold 1 in the first two
  bins.
\<close>

definition ex_data :: "nat dataframe" where
  "ex_data = \<lparr>df_columns = [''control_1'', ''A_1'', ''B_1'', ''B_2''],
              df_rows = [(0, [2, 1, 3, 4]), (1, [3, 5, 0, 1]), (2, [0, 7, 7, 7])]\<rparr>"

definition ex_conditions :: "string list" where
  "ex_conditions = [''control'', ''A'', ''B'']"

definition ex_counts :: "string \<rightharpoonup> nat" where
  "ex_counts = [''control'' \<mapsto> 1, ''A'' \<mapsto> 1, ''B'' \<mapsto> 2]"

text \<open>
  Its training sample of two bins, and the mixing matrix and the signal matrix the
  stand-in library gives for it.
\<close>

definition ex_train :: "nat dataframe" where
  "ex_train = \<lparr>df_columns = [''control_1'', ''A_1'', ''B_1'', ''B_2''],
               df_rows = [(0, [2, 1, 3, 4]), (1, [3, 5, 0, 1])]\<rparr>"

definition ex_mm :: "string dataframe" where
  "ex_mm = \<lparr>df_columns = [''control_1'', ''A_1'', ''B_1'', ''B_2''],
            df_rows = [(''unspecific'', [1, 3, 3 / 2, 5 / 2]), (''A'', [0, 1, 0, 0]),
                       (''B'', [0, 0, 1, 1])]\<rparr>"

definition ex_signal :: "nat dataframe" where
  "ex_signal = \<lparr>df_columns = [''control'', ''A'', ''B''],
                df_rows = [(0, [5 / 2, 5 / 2, 5 / 2]), (1, [9 / 4, 9 / 4, 9 / 4]),
                           (2, [21 / 4, 21 / 4, 21 / 4])]\<rparr>"

text \<open>
  The sample coverage matrix with the columns of conditions \<open>A\<close> and \<open>B\<close> interleaved.
\<close>

definition ex_shuffled :: "nat dataframe" where
  "ex_shuffled = \<lparr>df_columns = [''control_1'', ''B_1'', ''A_1'', ''B_2''],
                  df_rows = [(0, [2, 3, 1, 4]), (1, [3, 0, 5, 1]), (2, [0, 7, 7, 7])]\<rparr>"

text \<open>Replicate counts that add up to three, for the four columns.\<close>

definition ex_counts_short :: "string \<rightharpoonup> nat" where
  "ex_counts_short = [''control'' \<mapsto> 1, ''A'' \<mapsto> 1, ''B'' \<mapsto> 1]"

text \<open>
  A signal matrix of four bins labelled 0 to 3, the last one masked out, and what
  \<open>run_HSR\<close> makes of it with \<open>eps = 1\<close>.
\<close>

definition ex_index :: "label list" where
  "ex_index = [IntLabel 0, IntLabel 1, IntLabel 2, IntLabel 3]"

text \<open>The same labels for the first three bins, another one for the last.\<close>

definition ex_index_alt :: "label list" where
  "ex_index_alt = [IntLabel 0, IntLabel 1, IntLabel 2, IntLabel 7]"

definition ex_wmat :: "label dataframe" where
  "ex_wmat = \<lparr>df_columns = [''control'', ''A''],
              df_rows = [(IntLabel 0, [1, 1]), (IntLabel 1, [exp 1, exp 2]),
                         (IntLabel 2, [exp 2, exp 4]), (IntLabel 3, [0, 7])]\<rparr>"

definition ex_mask :: "bool list" where
  "ex_mask = [True, True, True, False]"

definition ex_hsr :: "(string \<times> real list) list" where
  "ex_hsr = [(''A HSR Value'', [1, 1, 1, 7]), (''A fit'', [1, exp 2, exp 4, 1])]"

text \<open>
  The replicates behind the sample signal matrix, on the same four bins, and their
  mixing matrix.
\<close>

definition ex_replicates :: "label dataframe" where
  "ex_replicates = \<lparr>df_columns = [''control_1'', ''A_1''],
                    df_rows = [(IntLabel 0, [1, 2]), (IntLabel 1, [3, exp 1 + exp 2]),
                               (IntLabel 2, [5, exp 2 + exp 4]), (IntLabel 3, [0, 7])]\<rparr>"

definition ex_mmat :: "string dataframe" where
  "ex_mmat = \<lparr>df_columns = [''control_1'', ''A_1''],
              df_rows = [(''unspecific'', [1, 1]), (''A'', [0, 1])]\<rparr>"

definition ex_hsr_replicates :: "(string \<times> real list) list" where
  "ex_hsr_replicates =
     [(''A_1 HSR Value'', [1, 1, 1, 7]), (''A_1 fit'', [1, exp 2, exp 4, 1])]"

section \<open>Notions the statements use\<close>

text \<open>The columns of the \<open>i\<close>-th condition when the conditions have \<open>ns\<close> replicates.\<close>

definition condition_slice :: "nat list \<Rightarrow> nat \<Rightarrow> nat set" where
  "condition_slice ns i = {sum_list (take i ns) ..< sum_list (take (Suc i) ns)}"

text \<open>The columns the loop writes for the \<open>k\<close>-th count of \<open>cs\<close>, starting at \<open>ix\<close>.\<close>

definition in_slice :: "nat \<Rightarrow> nat list \<Rightarrow> nat \<Rightarrow> nat \<Rightarrow> bool" where
  "in_slice ix cs k j \<longleftrightarrow> ix + sum_list (take k cs) \<le> j \<and> j < ix + sum_list (take (Suc k) cs)"

text \<open>
  The rows in which a control column (one whose label starts with the first condition)
  lies strictly above the threshold.
\<close>

definition qualifying_rows :: "'i dataframe \<Rightarrow> string list \<Rightarrow> real \<Rightarrow> ('i \<times> real list) list" where
  "qualifying_rows data_df conditions_list control_cov_threshold =
     (case conditions_list of
        [] \<Rightarrow> []
      | control # _ \<Rightarrow>
          filter (\<lambda>r. \<exists>cv \<in> set (zip (df_columns data_df) (snd r)).
                        startswith (fst cv) control \<and> control_cov_threshold < snd cv)
            (df_rows data_df))"

text \<open>
  What the sample needs of the generator seeded with \<open>seed\<close>: asked for \<open>n\<close> of \<open>m\<close>
  positions without replacement, it returns \<open>n\<close> distinct positions below \<open>m\<close>.
\<close>

definition sampler_ok :: "sklib \<Rightarrow> int \<Rightarrow> bool" where
  "sampler_ok lib seed \<longleftrightarrow>
     (\<forall>m n. n \<le> m \<longrightarrow>
        (\<exists>ixs. RandomState_choice lib seed m n = Inr ixs \<and> length ixs = n \<and>
               distinct ixs \<and> (\<forall>i \<in> set ixs. i < m)))"

text \<open>
  What the claims on signs need of the factorizations: the factors they return hold no
  negative entry.
\<close>

definition nonneg_factors :: "sklib \<Rightarrow> bool" where
  "nonneg_factors lib \<longleftrightarrow>
     (\<forall>args W H. NMF_fit_transform lib args = Inr (W, H) \<longrightarrow> nonneg W \<and> nonneg H) \<and>
     (\<forall>g args W H g'. non_negative_factorization lib g args = Inr (W, H, g')
        \<longrightarrow> nonneg W \<and> nonneg H)"

text \<open>
  The rows in consecutive chunks of \<open>k\<close>, the last one shorter when \<open>k\<close> does not divide
  their number.
\<close>

definition row_chunks :: "nat \<Rightarrow> 'a list \<Rightarrow> 'a list list" where
  "row_chunks k xs = map (\<lambda>i. take k (drop (i * k) xs)) [0..<(length xs + k - 1) div k]"

text \<open>
  Inputs scikit-learn accepts for a factorization with \<open>H\<close> held fixed: \<open>X\<close> and \<open>H\<close> are
  not empty, of one width, without negative entries, and \<open>H\<close> is not all zero.
\<close>

definition factorizable :: "matrix \<Rightarrow> matrix \<Rightarrow> bool" where
  "factorizable X H \<longleftrightarrow>
     X \<noteq> [] \<and> H \<noteq> [] \<and> nonneg X \<and> nonneg H \<and> (\<exists>h \<in> set H. \<exists>v \<in> set h. 0 < v) \<and>
     (\<exists>m > 0. (\<forall>r \<in> set X. length r = m) \<and> (\<forall>h \<in> set H. length h = m))"

text \<open>
  What \<open>extract_signal\<close> needs of the solver: on such inputs, with the initialisation
  \<open>custom\<close> and \<open>H\<close> fixed, it returns a \<open>W\<close> with one row per row of \<open>X\<close> and one entry
  per component.
\<close>

definition signal_solver_ok :: "sklib \<Rightarrow> bool" where
  "signal_solver_ok lib \<longleftrightarrow>
     (\<forall>g args H.
        kw_H args = Some H \<and> \<not> kw_update_H args \<and> kw_init args = Some ''custom'' \<and>
        length H = kw_n_components args \<and> factorizable (kw_X args) H
        \<longrightarrow> (\<exists>W H' g'. non_negative_factorization lib g args = Inr (W, H', g') \<and>
               length W = length (kw_X args) \<and>
               (\<forall>r \<in> set W. length r = kw_n_components args)))"

text \<open>
  The columns both loops leave behind: for each name in turn its track and its fitted
  baseline, written as the loop body writes them.
\<close>

fun write_columns ::
  "(string \<times> real list \<times> real list) list \<Rightarrow> (string \<times> real list) list
     \<Rightarrow> (string \<times> real list) list" where
  "write_columns [] out = out"
| "write_columns ((name, track, pred) # rest) out =
     write_columns rest
       (set_column (set_column out (name @ '' HSR Value'') track) (name @ '' fit'') pred)"

section \<open>The error monad\<close>

lemma bind_err_simps [simp]:
  "bind_err (Inl e) f = Inl e" "bind_err (Inr x) f = f x"
  by (simp_all add: bind_err_def)

lemma bind_err_Inr: "bind_err m f = Inr y \<longleftrightarrow> (\<exists>x. m = Inr x \<and> f x = Inr y)"
  by (cases m) simp_all

lemma bind_err_InrE:
  assumes "bind_err m f = Inr y"
  obtains x where "m = Inr x" "f x = Inr y"
  using assms by (auto simp: bind_err_Inr)

section \<open>Assignments into the mixing matrix\<close>

lemma assign_slice_cases:
  assumes "assign_slice M r a b V = Inr M'"
  obtains w where "r < length M"
    "length w = max (min a (length (M ! r))) (min b (length (M ! r))) - min a (length (M ! r))"
    "M' = M[r := take (min a (length (M ! r))) (M ! r) @ w
                  @ drop (max (min a (length (M ! r))) (min b (length (M ! r)))) (M ! r)]"
proof -
  from assms have r: "r < length M"
    unfolding assign_slice_def by (simp split: if_splits)
  from assms r obtain v where V: "V = [v]"
    unfolding assign_slice_def Let_def
    by (cases V; cases "tl V") (simp_all split: if_splits)
  show thesis
  proof (cases "length v = max (min a (length (M ! r))) (min b (length (M ! r))) - min a (length (M ! r))")
    case True
    with assms r V show ?thesis
      unfolding assign_slice_def Let_def by (intro that[of v]) simp_all
  next
    case False
    with assms r V show ?thesis
      unfolding assign_slice_def Let_def
      by (intro that[of "replicate (max (min a (length (M ! r))) (min b (length (M ! r))) - min a (length (M ! r))) (hd v)"])
         (simp_all split: if_splits)
  qed
qed

lemma assign_slice_Inr:
  assumes "assign_slice M r a b V = Inr M'"
  shows "r < length M" and "length M' = length M"
    and "\<And>r'. r' \<noteq> r \<Longrightarrow> M' ! r' = M ! r'"
    and "length (M' ! r) = length (M ! r)"
    and "\<And>j. j < length (M ! r) \<Longrightarrow> \<not> (a \<le> j \<and> j < b) \<Longrightarrow> M' ! r ! j = M ! r ! j"
proof -
  define row where "row = M ! r"
  define lo where "lo = min a (length row)"
  define hi where "hi = max lo (min b (length row))"
  from assms obtain w where r: "r < length M" and w: "length w = hi - lo"
    and M': "M' = M[r := take lo row @ w @ drop hi row]"
    unfolding row_def lo_def hi_def by (rule assign_slice_cases)
  show "r < length M" by (rule r)
  show "length M' = length M" using M' by simp
  show "\<And>r'. r' \<noteq> r \<Longrightarrow> M' ! r' = M ! r'" using M' by simp
  have row': "M' ! r = take lo row @ w @ drop hi row" using M' r by simp
  have lohi: "lo \<le> hi" "hi \<le> length row" by (simp_all add: hi_def lo_def)
  show "length (M' ! r) = length (M ! r)"
    using row' w lohi by (simp add: row_def[symmetric])
  show "M' ! r ! j = M ! r ! j" if j: "j < length (M ! r)" and nj: "\<not> (a \<le> j \<and> j < b)" for j
  proof (cases "j < lo")
    case True
    then show ?thesis using row' by (simp add: nth_append row_def[symmetric] lo_def)
  next
    case False
    with nj j have hj: "hi \<le> j" by (auto simp: lo_def hi_def row_def)
    with lohi False have ar: "\<not> j - lo < hi - lo" "j - lo - (hi - lo) = j - hi" "hi + (j - hi) = j"
      by arith+
    have "length (take lo row) = lo" using lohi by simp
    then show ?thesis using row' w lohi False j ar
      by (simp add: nth_append row_def[symmetric])
  qed
qed

lemma specific_loop_frame:
  assumes "specific_loop lib aW aH sdm cs i ix M g = Inr (M', g')"
  shows "length M' = length M \<and> i + length cs < length M + (if cs = [] then Suc i else 0) \<and>
         (\<forall>r < length M. length (M' ! r) = length (M ! r) \<and>
            (\<forall>j < length (M ! r).
               \<not> (\<exists>k < length cs. r = Suc (i + k) \<and> in_slice ix cs k j) \<longrightarrow> M' ! r ! j = M ! r ! j))"
  using assms
proof (induction cs arbitrary: i ix M g)
  case Nil
  then show ?case by simp
next
  case (Cons c cs)
  from Cons.prems obtain H g1 M1 where
    a: "assign_slice M (i + 1) ix (ix + c) H = Inr M1" and
    l: "specific_loop lib aW aH sdm cs (i + 1) (ix + c) M1 g1 = Inr (M', g')"
    by (auto simp: bind_err_Inr)
  note A = assign_slice_Inr[OF a]
  note IH = Cons.IH[OF l]
  have len: "length M' = length M" using IH A(2) by simp
  have bound: "i + length (c # cs) < length M"
    using IH A(1,2) by (cases cs) (simp_all split: if_splits)
  have "length (M' ! r) = length (M ! r) \<and>
        (\<forall>j < length (M ! r).
           \<not> (\<exists>k < length (c # cs). r = Suc (i + k) \<and> in_slice ix (c # cs) k j)
             \<longrightarrow> M' ! r ! j = M ! r ! j)" if r: "r < length M" for r
  proof -
    have r1: "r < length M1" using r A(2) by simp
    have l1: "length (M1 ! r) = length (M ! r)"
      using A(3)[of r] A(4) by (cases "r = i + 1") simp_all
    have lr: "length (M' ! r) = length (M ! r)" using IH r1 l1 by simp
    have "M' ! r ! j = M ! r ! j"
      if j: "j < length (M ! r)"
        and out: "\<not> (\<exists>k < length (c # cs). r = Suc (i + k) \<and> in_slice ix (c # cs) k j)" for j
    proof -
      have "\<not> (\<exists>k < length cs. r = Suc (i + 1 + k) \<and> in_slice (ix + c) cs k j)"
      proof
        assume "\<exists>k < length cs. r = Suc (i + 1 + k) \<and> in_slice (ix + c) cs k j"
        then obtain k where "k < length cs" "r = Suc (i + 1 + k)" "in_slice (ix + c) cs k j" by blast
        then have "Suc k < length (c # cs) \<and> r = Suc (i + Suc k) \<and> in_slice ix (c # cs) (Suc k) j"
          by (simp add: in_slice_def add.assoc)
        with out show False by blast
      qed
      then have 1: "M' ! r ! j = M1 ! r ! j" using IH r1 l1 j by simp
      have 2: "M1 ! r ! j = M ! r ! j"
      proof (cases "r = i + 1")
        case True
        from out have "\<not> in_slice ix (c # cs) 0 j" using True by auto
        then have "\<not> (ix \<le> j \<and> j < ix + c)" by (simp add: in_slice_def)
        then show ?thesis using A(5)[of j] j True by simp
      next
        case False
        then show ?thesis using A(3) by simp
      qed
      from 1 2 show ?thesis by simp
    qed
    with lr show ?thesis by blast
  qed
  with len bound show ?case by simp
qed

lemma ex_mm_run:
  "extract_mixing_matrix ref_lib 0 ex_data ex_conditions ex_counts 0.01 0.001 1 2 42 = Inr (ex_mm, 0)"
  by code_simp

lemma lookup_all_length: "lookup_all m cs = Inr ns \<Longrightarrow> length ns = length cs"
  by (induction cs arbitrary: ns) (auto simp: bind_err_Inr split: option.splits)

lemma df_sample_columns: "df_sample lib df n seed = Inr t \<Longrightarrow> df_columns t = df_columns df"
  by (auto simp: df_sample_def bind_err_Inr split: if_splits)

lemma select_train_columns:
  "select_train lib data_df cl thr n seed = Inr t \<Longrightarrow> df_columns t = df_columns data_df"
  by (auto simp: select_train_def bind_err_Inr dsel_def dest!: df_sample_columns)

lemma DataFrame_Inr:
  assumes "DataFrame vals index columns = Inr df"
  shows "df_columns df = columns" "df_values df = vals" "df_index df = index"
    "length vals = length index" "\<forall>r\<in>set vals. length r = length columns"
  using assms by (auto simp: DataFrame_def df_values_def df_index_def list_all_iff split: if_splits)

lemma extract_mixing_matrix_stages:
  assumes "extract_mixing_matrix lib g data_df conditions_list counts aW aH thr n seed = Inr (mm, g')"
  obtains train_data W_unspec H_unspec_coefs g1 sdm n_control cs M0 M' where
    "select_train lib data_df conditions_list thr n seed = Inr train_data"
    "unspecific_coefs lib g data_df train_data conditions_list aW aH = Inr (W_unspec, H_unspec_coefs, g1)"
    "specific_data_mat (df_values train_data) W_unspec H_unspec_coefs = Inr sdm"
    "lookup_all counts conditions_list = Inr (n_control # cs)"
    "assign_row (np_zeros (length conditions_list) (sum_list (n_control # cs))) 0 H_unspec_coefs = Inr M0"
    "specific_loop lib aW aH sdm cs 0 n_control M0 g1 = Inr (M', g')"
    "DataFrame M' (''unspecific'' # drop 1 conditions_list) (df_columns train_data) = Inr mm"
  using assms unfolding extract_mixing_matrix_def Let_def
  by (auto elim!: bind_err_InrE split: list.splits prod.splits)

lemma assign_row_zeros:
  assumes "assign_row (np_zeros R T) 0 v = Inr M0"
  shows "length M0 = R" "\<forall>r < R. length (M0 ! r) = T"
    "\<forall>r < R. 0 < r \<longrightarrow> M0 ! r = replicate T 0"
proof -
  note A = assign_slice_Inr[OF assms[unfolded assign_row_def]]
  from A(1) have R: "0 < R" by (simp add: np_zeros_def)
  show "length M0 = R" using A(2) by (simp add: np_zeros_def)
  show "\<forall>r < R. 0 < r \<longrightarrow> M0 ! r = replicate T 0"
    using A(3) by (simp add: np_zeros_def)
  then show "\<forall>r < R. length (M0 ! r) = T"
    using A(4) R by (metis length_replicate not_gr_zero np_zeros_def nth_replicate)
qed

section \<open>The shape of the mixing matrix\<close>

text \<open>
  Claim C1. Whenever \<open>extract_mixing_matrix\<close> returns a mixing matrix, whatever the
  libraries computed: it has one row per entry of the conditions list; its columns are
  those of the coverage matrix, as many as the replicate counts add up to; and in the
  row of each treatment condition every entry outside the columns of that condition is
  zero.
\<close>

theorem extract_mixing_matrix_shape:
  assumes "extract_mixing_matrix lib g data_df conditions_list conditions_counts_ref
             alpha_W alpha_H control_cov_threshold n_train_bins seed = Inr (mm, g')"
  shows "\<exists>n_replicates.
           lookup_all conditions_counts_ref conditions_list = Inr n_replicates \<and>
           length (df_rows mm) = length conditions_list \<and>
           sum_list n_replicates = length (df_columns data_df) \<and>
           df_columns mm = df_columns data_df \<and>
           (\<forall>row \<in> set (df_values mm). length row = length (df_columns data_df)) \<and>
           (\<forall>i j. Suc i < length conditions_list \<and> j < length (df_columns data_df) \<and>
                  j \<notin> condition_slice n_replicates (Suc i)
                  \<longrightarrow> df_values mm ! Suc i ! j = 0)"
proof -
  from assms obtain train_data H_unspec_coefs g1 sdm n_control cs M0 M' where
    tr: "select_train lib data_df conditions_list control_cov_threshold n_train_bins seed
           = Inr train_data" and
    lk: "lookup_all conditions_counts_ref conditions_list = Inr (n_control # cs)" and
    m0: "assign_row (np_zeros (length conditions_list) (sum_list (n_control # cs))) 0
           H_unspec_coefs = Inr M0" and
    lp: "specific_loop lib alpha_W alpha_H sdm cs 0 n_control M0 g1 = Inr (M', g')" and
    df: "DataFrame M' (''unspecific'' # drop 1 conditions_list) (df_columns train_data) = Inr mm"
    by (rule extract_mixing_matrix_stages)
  define R where "R = length conditions_list"
  define T where "T = sum_list (n_control # cs)"
  have lenR: "length (n_control # cs) = R" using lookup_all_length[OF lk] by (simp add: R_def)
  then have Rpos: "0 < R" by auto
  note Z = assign_row_zeros[OF m0[folded R_def T_def]]
  from specific_loop_frame[OF lp] Z(1)
  have F1: "length M' = R"
    and F2: "\<forall>r < R. length (M' ! r) = length (M0 ! r) \<and>
            (\<forall>j < length (M0 ! r).
               \<not> (\<exists>k < length cs. r = Suc (0 + k) \<and> in_slice n_control cs k j)
                 \<longrightarrow> M' ! r ! j = M0 ! r ! j)"
    by simp_all
  note D = DataFrame_Inr[OF df]
  have cols: "df_columns train_data = df_columns data_df"
    by (rule select_train_columns[OF tr])
  have rows: "\<forall>r < R. length (M' ! r) = T" using F2 Z(2) by simp
  have "M' ! 0 \<in> set M'" using F1 Rpos by simp
  then have TT: "T = length (df_columns data_df)" using D(5) rows Rpos cols by auto
  have len_rows: "length (df_rows mm) = R"
    using D(2) F1 by (metis df_values_def length_map)
  have zero: "df_values mm ! Suc i ! j = 0"
    if i: "Suc i < R" and j: "j < T" and out: "j \<notin> condition_slice (n_control # cs) (Suc i)" for i j
  proof -
    have ic: "i < length cs" using i lenR by simp
    have "\<not> in_slice n_control cs i j"
      using out by (simp add: in_slice_def condition_slice_def)
    then have "\<not> (\<exists>k < length cs. Suc i = Suc (0 + k) \<and> in_slice n_control cs k j)" by simp
    moreover have "j < length (M0 ! Suc i)" using Z(2) i j by simp
    ultimately have "M' ! Suc i ! j = M0 ! Suc i ! j" using F2 i by blast
    also have "\<dots> = 0" using Z(3) i j by simp
    finally show ?thesis using D(2) by simp
  qed
  show ?thesis
  proof (intro exI conjI)
    show "lookup_all conditions_counts_ref conditions_list = Inr (n_control # cs)" by (rule lk)
    show "length (df_rows mm) = length conditions_list" using len_rows by (simp add: R_def)
    show "sum_list (n_control # cs) = length (df_columns data_df)" using TT by (simp add: T_def)
    show "df_columns mm = df_columns data_df" using D(1) cols by simp
    show "\<forall>row \<in> set (df_values mm). length row = length (df_columns data_df)"
      using D(2,5) cols by simp
    show "\<forall>i j. Suc i < length conditions_list \<and> j < length (df_columns data_df) \<and>
                  j \<notin> condition_slice (n_control # cs) (Suc i)
                  \<longrightarrow> df_values mm ! Suc i ! j = 0"
      using zero TT by (simp add: R_def)
  qed
qed

theorem extract_mixing_matrix_shape_witness:
  "extract_mixing_matrix ref_lib 0 ex_data ex_conditions ex_counts 0.01 0.001 1 2 42
     = Inr (ex_mm, 0) \<and>
   (\<exists>n_replicates.
      lookup_all ex_counts ex_conditions = Inr n_replicates \<and>
      length (df_rows ex_mm) = length ex_conditions \<and>
      sum_list n_replicates = length (df_columns ex_data) \<and>
      df_columns ex_mm = df_columns ex_data \<and>
      (\<forall>row \<in> set (df_values ex_mm). length row = length (df_columns ex_data)) \<and>
      (\<forall>i j. Suc i < length ex_conditions \<and> j < length (df_columns ex_data) \<and>
             j \<notin> condition_slice n_replicates (Suc i)
             \<longrightarrow> df_values ex_mm ! Suc i ! j = 0))"
  using extract_mixing_matrix_shape[OF ex_mm_run] ex_mm_run by blast

lemma row_at_filter:
  "row_at columns (filter P columns) row = map snd (filter (\<lambda>cv. P (fst cv)) (zip columns row))"
proof -
  have "filter (\<lambda>cv. fst cv \<in> set (filter P columns)) (zip columns row)
          = filter (\<lambda>cv. P (fst cv)) (zip columns row)"
    by (rule filter_cong) (auto dest: set_zip_leftD)
  then show ?thesis by (simp add: row_at_def)
qed

lemma dsel_rows:
  "control_columns data_df conditions_list = Inr cols \<Longrightarrow>
   df_rows (dsel data_df cols thr) = qualifying_rows data_df conditions_list thr"
proof (cases "df_columns data_df = []")
  case True
  assume "control_columns data_df conditions_list = Inr cols"
  with True have "cols = []" by (simp add: control_columns_def)
  with True show ?thesis
    by (simp add: dsel_def qualifying_rows_def row_at_def split: list.splits)
next
  case False
  assume "control_columns data_df conditions_list = Inr cols"
  with False obtain c0 rest where cl: "conditions_list = c0 # rest"
    and cols: "cols = filter (\<lambda>c. startswith c c0) (df_columns data_df)"
    by (auto simp: control_columns_def split: list.splits)
  have "list_ex (\<lambda>v. thr < v) (map snd (filter (\<lambda>cv. startswith (fst cv) c0) zs))
          \<longleftrightarrow> (\<exists>cv \<in> set zs. startswith (fst cv) c0 \<and> thr < snd cv)"
    for zs :: "(string \<times> real) list"
    unfolding list_ex_iff by force
  then show ?thesis
    unfolding dsel_def qualifying_rows_def cl cols row_at_filter by simp
qed

lemma dsel_columns: "df_columns (dsel data_df cols thr) = df_columns data_df"
  by (simp add: dsel_def)

section \<open>The size of the training sample\<close>

text \<open>
  Claim C3. With fewer rows of enough control coverage than \<open>n_train_bins\<close>,
  \<open>extract_mixing_matrix\<close> fails, and with the same error whatever the libraries would
  do: no factorization is reached. With at least \<open>n_train_bins\<close> such rows (and a
  generator that draws as many positions as it is asked for) the training matrix has
  exactly \<open>n_train_bins\<close> rows, each a qualifying row of the coverage matrix, under
  all its columns.
\<close>

theorem select_train_size:
  "(int (length (qualifying_rows data_df conditions_list control_cov_threshold)) < n_train_bins \<longrightarrow>
            (\<forall>lib g counts alpha_W alpha_H seed.
               extract_mixing_matrix lib g data_df conditions_list counts alpha_W alpha_H
                   control_cov_threshold n_train_bins seed
                 = Inl (if conditions_list = [] \<and> df_columns data_df \<noteq> []
                        then IndexError else ValueError))) \<and>
         (0 \<le> n_train_bins \<and> n_train_bins \<le> int (length (qualifying_rows data_df conditions_list control_cov_threshold)) \<and>
          (conditions_list \<noteq> [] \<or> df_columns data_df = []) \<and> sampler_ok lib seed \<longrightarrow>
            (\<exists>train_data.
               select_train lib data_df conditions_list control_cov_threshold n_train_bins seed
                 = Inr train_data \<and>
               int (length (df_rows train_data)) = n_train_bins \<and>
               df_columns train_data = df_columns data_df \<and>
               set (df_rows train_data) \<subseteq> set (qualifying_rows data_df conditions_list control_cov_threshold)))"
proof -
  define Q where "Q = qualifying_rows data_df conditions_list control_cov_threshold"
  show ?thesis unfolding Q_def[symmetric]
  proof (intro conjI impI allI)
  fix lib' :: sklib and g counts alpha_W alpha_H seed'
  assume less: "int (length Q) < n_train_bins"
  show "extract_mixing_matrix lib' g data_df conditions_list counts alpha_W alpha_H
            control_cov_threshold n_train_bins seed'
          = Inl (if conditions_list = [] \<and> df_columns data_df \<noteq> [] then IndexError else ValueError)"
  proof (cases "control_columns data_df conditions_list")
    case (Inl e)
    then have "conditions_list = [] \<and> df_columns data_df \<noteq> [] \<and> e = IndexError"
      by (auto simp: control_columns_def split: if_splits list.splits)
    with Inl show ?thesis
      by (simp add: extract_mixing_matrix_def select_train_def)
  next
    case (Inr cols)
    then have ne: "\<not> (conditions_list = [] \<and> df_columns data_df \<noteq> [])"
      by (auto simp: control_columns_def split: if_splits list.splits)
    have "df_sample lib' (dsel data_df cols control_cov_threshold) n_train_bins seed' = Inl ValueError"
      using less dsel_rows[OF Inr, of control_cov_threshold]
      by (simp add: df_sample_def Q_def)
    with Inr ne show ?thesis
      by (simp add: extract_mixing_matrix_def select_train_def)
  qed
next
  assume a: "0 \<le> n_train_bins \<and> n_train_bins \<le> int (length Q) \<and>
          (conditions_list \<noteq> [] \<or> df_columns data_df = []) \<and> sampler_ok lib seed"
  then have "\<exists>cols. control_columns data_df conditions_list = Inr cols"
    by (cases conditions_list) (simp_all add: control_columns_def)
  then obtain cols where cols: "control_columns data_df conditions_list = Inr cols" ..
  define d where "d = dsel data_df cols control_cov_threshold"
  have dq: "df_rows d = Q" unfolding d_def Q_def by (rule dsel_rows[OF cols])
  from a have "nat n_train_bins \<le> length Q" by linarith
  with a obtain ixs where ch: "RandomState_choice lib seed (length Q) (nat n_train_bins) = Inr ixs"
    and len: "length ixs = nat n_train_bins" and rng: "\<forall>i \<in> set ixs. i < length Q"
    unfolding sampler_ok_def by blast
  have "df_sample lib d n_train_bins seed = Inr (d\<lparr>df_rows := map (\<lambda>i. Q ! i) ixs\<rparr>)"
    using a ch rng by (simp add: df_sample_def dq list_all_iff)
  then have st: "select_train lib data_df conditions_list control_cov_threshold n_train_bins seed
      = Inr (d\<lparr>df_rows := map (\<lambda>i. Q ! i) ixs\<rparr>)"
    using cols by (simp add: select_train_def d_def)
  show "\<exists>train_data.
               select_train lib data_df conditions_list control_cov_threshold n_train_bins seed
                 = Inr train_data \<and>
               int (length (df_rows train_data)) = n_train_bins \<and>
               df_columns train_data = df_columns data_df \<and>
               set (df_rows train_data) \<subseteq> set Q"
      using st len a rng by (auto simp: d_def dsel_columns)
  qed
qed

lemma sampler_ok_ref_lib: "sampler_ok ref_lib 42"
  by (simp add: sampler_ok_def ref_lib_def)

lemma ex_Q: "qualifying_rows ex_data ex_conditions 1 = [(0, [2, 1, 3, 4]), (1, [3, 5, 0, 1])]"
  by (simp add: qualifying_rows_def ex_data_def ex_conditions_def startswith_def)

theorem select_train_size_witness:
  "(int (length (qualifying_rows ex_data ex_conditions 1)) < 3 \<and>
    extract_mixing_matrix ref_lib 0 ex_data ex_conditions ex_counts 0.01 0.001 1 3 42
      = Inl ValueError) \<and>
   (0 \<le> (2::int) \<and> 2 \<le> int (length (qualifying_rows ex_data ex_conditions 1)) \<and>
    ex_conditions \<noteq> [] \<and> sampler_ok ref_lib 42 \<and>
    (\<exists>train_data.
       select_train ref_lib ex_data ex_conditions 1 2 42 = Inr train_data \<and>
       int (length (df_rows train_data)) = 2 \<and>
       df_columns train_data = df_columns ex_data \<and>
       set (df_rows train_data) \<subseteq> set (qualifying_rows ex_data ex_conditions 1)))"
proof -
  have ne: "ex_conditions \<noteq> []" by (simp add: ex_conditions_def)
  have q: "int (length (qualifying_rows ex_data ex_conditions 1)) = 2" by (simp add: ex_Q)
  from select_train_size[where data_df = ex_data and conditions_list = ex_conditions
      and control_cov_threshold = 1 and n_train_bins = 3] q ne
  have 1: "extract_mixing_matrix ref_lib 0 ex_data ex_conditions ex_counts 0.01 0.001 1 3 42
      = Inl ValueError" by simp
  from select_train_size[where data_df = ex_data and conditions_list = ex_conditions
      and control_cov_threshold = 1 and n_train_bins = 2 and lib = ref_lib and seed = 42]
    q ne sampler_ok_ref_lib
  have 2: "\<exists>train_data.
       select_train ref_lib ex_data ex_conditions 1 2 42 = Inr train_data \<and>
       int (length (df_rows train_data)) = 2 \<and>
       df_columns train_data = df_columns ex_data \<and>
       set (df_rows train_data) \<subseteq> set (qualifying_rows ex_data ex_conditions 1)" by simp
  from 1 2 q ne sampler_ok_ref_lib show ?thesis by simp
qed

section \<open>The pooled variant never returns\<close>

lemma select_train_ex:
  "select_train ref_lib ex_data ex_conditions 1 2 42
     = Inr \<lparr>df_columns = [''control_1'', ''A_1'', ''B_1'', ''B_2''],
            df_rows = [(0, [2, 1, 3, 4]), (1, [3, 5, 0, 1])]\<rparr>"
  by code_simp

text \<open>
  Claim C10, as stated, fails: with three training bins asked of the two qualifying rows
  of the sample input the call raises the sampling error, not \<open>NameError\<close>.
\<close>

theorem shared_unspecific_counterexample:
  "extract_mixing_matrix_shared_unspecific ref_lib 0 ex_data ex_conditions ex_counts
     0.01 0.001 1 3 42 = Inl ValueError"
  by code_simp

text \<open>
  Claim C10, amended. \<open>extract_mixing_matrix_shared_unspecific\<close> returns no value on any
  input; whenever the training sample is drawn and the control factorization succeeds
  it raises \<open>NameError\<close>, and otherwise the error of the step that failed first.
\<close>

theorem shared_unspecific_never_returns:
  "(\<forall>r. extract_mixing_matrix_shared_unspecific lib g data_df conditions_list
           conditions_counts_ref alpha_W alpha_H control_cov_threshold n_train_bins seed
         \<noteq> Inr r) \<and>
   (\<forall>train_data control_cols WH.
      select_train lib data_df conditions_list control_cov_threshold n_train_bins seed
        = Inr train_data \<and>
      control_columns data_df conditions_list = Inr control_cols \<and>
      NMF_fit_transform lib (NMF_model alpha_W alpha_H (loc_columns train_data control_cols))
        = Inr WH
      \<longrightarrow> extract_mixing_matrix_shared_unspecific lib g data_df conditions_list
            conditions_counts_ref alpha_W alpha_H control_cov_threshold n_train_bins seed
          = Inl NameError) \<and>
   (\<forall>e. select_train lib data_df conditions_list control_cov_threshold n_train_bins seed
        = Inl e
      \<longrightarrow> extract_mixing_matrix_shared_unspecific lib g data_df conditions_list
            conditions_counts_ref alpha_W alpha_H control_cov_threshold n_train_bins seed
          = Inl e) \<and>
   (\<forall>train_data control_cols e.
      select_train lib data_df conditions_list control_cov_threshold n_train_bins seed
        = Inr train_data \<and>
      control_columns data_df conditions_list = Inr control_cols \<and>
      NMF_fit_transform lib (NMF_model alpha_W alpha_H (loc_columns train_data control_cols))
        = Inl e
      \<longrightarrow> extract_mixing_matrix_shared_unspecific lib g data_df conditions_list
            conditions_counts_ref alpha_W alpha_H control_cov_threshold n_train_bins seed
          = Inl e)"
  unfolding extract_mixing_matrix_shared_unspecific_def
  by (auto simp: bind_err_Inr split: prod.splits)

theorem shared_unspecific_never_returns_witness:
  "select_train ref_lib ex_data ex_conditions 1 2 42
     = Inr \<lparr>df_columns = [''control_1'', ''A_1'', ''B_1'', ''B_2''],
            df_rows = [(0, [2, 1, 3, 4]), (1, [3, 5, 0, 1])]\<rparr> \<and>
   control_columns ex_data ex_conditions = Inr [''control_1''] \<and>
   NMF_fit_transform ref_lib (NMF_model 0.01 0.001
       (loc_columns \<lparr>df_columns = [''control_1'', ''A_1'', ''B_1'', ''B_2''],
            df_rows = [(0::nat, [2, 1, 3, 4]), (1, [3, 5, 0, 1])]\<rparr> [''control_1'']))
     = Inr ([[2], [3]], [[1]]) \<and>
   extract_mixing_matrix_shared_unspecific ref_lib 0 ex_data ex_conditions ex_counts
     0.01 0.001 1 2 42 = Inl NameError \<and>
   select_train ref_lib ex_data ex_conditions 1 3 42 = Inl ValueError \<and>
   extract_mixing_matrix_shared_unspecific ref_lib 0 ex_data ex_conditions ex_counts
     0.01 0.001 1 3 42 = Inl ValueError \<and>
   select_train ref_lib ex_data ex_conditions 1 0 42 = Inr (ex_train\<lparr>df_rows := []\<rparr>) \<and>
   NMF_fit_transform ref_lib (NMF_model 0.01 0.001
       (loc_columns (ex_train\<lparr>df_rows := []\<rparr>) [''control_1''])) = Inl ValueError \<and>
   extract_mixing_matrix_shared_unspecific ref_lib 0 ex_data ex_conditions ex_counts
     0.01 0.001 1 0 42 = Inl ValueError"
proof -
  have s0: "select_train ref_lib ex_data ex_conditions 1 0 42 = Inr (ex_train\<lparr>df_rows := []\<rparr>)"
    by code_simp
  have n0: "NMF_fit_transform ref_lib (NMF_model 0.01 0.001
       (loc_columns (ex_train\<lparr>df_rows := []\<rparr>) [''control_1''])) = Inl ValueError"
    by code_simp
  have c: "control_columns ex_data ex_conditions = Inr [''control_1'']" by code_simp
  have n: "NMF_fit_transform ref_lib (NMF_model 0.01 0.001
       (loc_columns \<lparr>df_columns = [''control_1'', ''A_1'', ''B_1'', ''B_2''],
            df_rows = [(0::nat, [2, 1, 3, 4]), (1, [3, 5, 0, 1])]\<rparr> [''control_1'']))
     = Inr ([[2], [3]], [[1]])" by code_simp
  have s3: "select_train ref_lib ex_data ex_conditions 1 3 42 = Inl ValueError" by code_simp
  from shared_unspecific_never_returns[of ref_lib 0 ex_data ex_conditions ex_counts
      "0.01" "0.001" 1 2 42] select_train_ex c n
  have 1: "extract_mixing_matrix_shared_unspecific ref_lib 0 ex_data ex_conditions ex_counts
     0.01 0.001 1 2 42 = Inl NameError" by blast
  from shared_unspecific_never_returns[of ref_lib 0 ex_data ex_conditions ex_counts
      "0.01" "0.001" 1 3 42] s3
  have 2: "extract_mixing_matrix_shared_unspecific ref_lib 0 ex_data ex_conditions ex_counts
     0.01 0.001 1 3 42 = Inl ValueError" by blast
  from shared_unspecific_never_returns[of ref_lib 0 ex_data ex_conditions ex_counts
      "0.01" "0.001" 1 0 42] s0 c n0
  have 3: "extract_mixing_matrix_shared_unspecific ref_lib 0 ex_data ex_conditions ex_counts
     0.01 0.001 1 0 42 = Inl ValueError" by blast
  from select_train_ex c n 1 2 3 s3 s0 n0 show ?thesis by simp
qed

section \<open>No check of the column layout\<close>

lemma lookup_all_Nil: "lookup_all m cs = Inr [] \<Longrightarrow> cs = []"
  by (cases cs) (auto simp: bind_err_Inr split: option.splits)

lemma select_train_no_conditions:
  "select_train lib data_df [] thr n seed = Inr t \<Longrightarrow> df_columns data_df = []"
  by (auto simp: select_train_def control_columns_def bind_err_Inr split: if_splits)

lemma assign_row_mismatch:
  assumes "0 < R" "length v \<noteq> T" "length v \<noteq> 1"
  shows "assign_row (np_zeros R T) 0 v = Inl ValueError"
  using assms by (simp add: assign_row_def assign_slice_def np_zeros_def)

text \<open>
  Claim C8, as stated, fails: on a coverage matrix whose columns are not grouped in the
  order of the conditions list the call returns a mixing matrix, in which the row of
  condition \<open>A\<close> carries its coefficient under the sample \<open>B_1\<close>.
\<close>

theorem layout_mismatch_counterexample:
  "extract_mixing_matrix ref_lib 0 ex_shuffled ex_conditions ex_counts 0.01 0.001 1 2 42
     = Inr (\<lparr>df_columns = [''control_1'', ''B_1'', ''A_1'', ''B_2''],
             df_rows = [(''unspecific'', [1, 3 / 2, 3, 5 / 2]), (''A'', [0, 1, 0, 0]),
                        (''B'', [0, 0, 1, 1])]\<rparr>, 0)"
  by code_simp

text \<open>
  Claim C8, amended. \<open>extract_mixing_matrix\<close> checks nothing before it factorizes. When
  the replicate counts do not add up to the number of columns (of which there is more
  than one) and the training sample is drawn, the call runs the two background
  factorizations first: if they fail, the caller sees their error; if they return one
  coefficient per column, the call fails with \<open>ValueError\<close> when that row is written
  into the mixing matrix.
\<close>

theorem count_mismatch_detected_late:
  assumes "lookup_all conditions_counts_ref conditions_list = Inr n_replicates"
    and "sum_list n_replicates \<noteq> length (df_columns data_df)"
    and "length (df_columns data_df) \<noteq> 1"
    and "select_train lib data_df conditions_list control_cov_threshold n_train_bins seed
           = Inr train_data"
  shows "(\<forall>e. unspecific_coefs lib g data_df train_data conditions_list alpha_W alpha_H = Inl e
            \<longrightarrow> extract_mixing_matrix lib g data_df conditions_list conditions_counts_ref
                  alpha_W alpha_H control_cov_threshold n_train_bins seed = Inl e) \<and>
         (\<forall>W_unspec H_unspec_coefs g1.
            unspecific_coefs lib g data_df train_data conditions_list alpha_W alpha_H
              = Inr (W_unspec, H_unspec_coefs, g1) \<and>
            length H_unspec_coefs = length (df_columns data_df)
            \<longrightarrow> extract_mixing_matrix lib g data_df conditions_list conditions_counts_ref
                  alpha_W alpha_H control_cov_threshold n_train_bins seed = Inl ValueError)"
proof (intro conjI allI impI)
  fix e
  assume "unspecific_coefs lib g data_df train_data conditions_list alpha_W alpha_H = Inl e"
  then show "extract_mixing_matrix lib g data_df conditions_list conditions_counts_ref
                  alpha_W alpha_H control_cov_threshold n_train_bins seed = Inl e"
    using assms(4) by (simp add: extract_mixing_matrix_def)
next
  fix W_unspec H_unspec_coefs g1
  assume u: "unspecific_coefs lib g data_df train_data conditions_list alpha_W alpha_H
              = Inr (W_unspec, H_unspec_coefs, g1) \<and>
            length H_unspec_coefs = length (df_columns data_df)"
  have "conditions_list \<noteq> []"
  proof
    assume c: "conditions_list = []"
    with assms(1) have "n_replicates = []" by simp
    moreover from c assms(4) have "df_columns data_df = []"
      by (auto dest: select_train_no_conditions)
    ultimately show False using assms(2) by simp
  qed
  then have R: "0 < length conditions_list" by simp
  from \<open>conditions_list \<noteq> []\<close> assms(1) obtain n cs where ns: "n_replicates = n # cs"
    by (cases n_replicates) (auto dest: lookup_all_Nil)
  have row: "assign_row (np_zeros (length conditions_list) (sum_list n_replicates)) 0
               H_unspec_coefs = Inl ValueError"
    using R u assms(2,3) by (intro assign_row_mismatch) simp_all
  show "extract_mixing_matrix lib g data_df conditions_list conditions_counts_ref
                  alpha_W alpha_H control_cov_threshold n_train_bins seed = Inl ValueError"
  proof (cases "specific_data_mat (df_values train_data) W_unspec H_unspec_coefs")
    case (Inl e)
    then have "e = ValueError"
      by (auto simp: specific_data_mat_def np_dot_def np_subtract_def bind_err_def
               split: if_splits sum.splits)
    with Inl u assms(4) show ?thesis by (simp add: extract_mixing_matrix_def)
  next
    case (Inr sdm)
    with u assms(1,4) row ns show ?thesis
      by (simp add: extract_mixing_matrix_def)
  qed
qed

theorem count_mismatch_detected_late_witness:
  "lookup_all ex_counts_short ex_conditions = Inr [1, 1, 1] \<and>
   sum_list [1, 1, 1] \<noteq> length (df_columns ex_data) \<and>
   length (df_columns ex_data) \<noteq> 1 \<and>
   select_train ref_lib ex_data ex_conditions 1 2 42 = Inr ex_train \<and>
   unspecific_coefs ref_lib 0 ex_data ex_train ex_conditions 0.01 0.001
     = Inr ([[2], [3]], [1, 3, 3 / 2, 5 / 2], 0) \<and>
   length [1, 3, 3 / 2, 5 / 2 :: real] = length (df_columns ex_data) \<and>
   extract_mixing_matrix ref_lib 0 ex_data ex_conditions ex_counts_short 0.01 0.001 1 2 42
     = Inl ValueError \<and>
   select_train ref_lib ex_data ex_conditions 1 0 42 = Inr (ex_train\<lparr>df_rows := []\<rparr>) \<and>
   unspecific_coefs ref_lib 0 ex_data (ex_train\<lparr>df_rows := []\<rparr>) ex_conditions 0.01 0.001
     = Inl ValueError \<and>
   extract_mixing_matrix ref_lib 0 ex_data ex_conditions ex_counts_short 0.01 0.001 1 0 42
     = Inl ValueError"
proof -
  have l: "lookup_all ex_counts_short ex_conditions = Inr [1, 1, 1]" by code_simp
  have c: "sum_list [1, 1, 1] \<noteq> length (df_columns ex_data)"
    "length (df_columns ex_data) \<noteq> 1"
    "length [1, 3, 3 / 2, 5 / 2 :: real] = length (df_columns ex_data)"
    by (simp_all add: ex_data_def)
  have s2: "select_train ref_lib ex_data ex_conditions 1 2 42 = Inr ex_train" by code_simp
  have u2: "unspecific_coefs ref_lib 0 ex_data ex_train ex_conditions 0.01 0.001
     = Inr ([[2], [3]], [1, 3, 3 / 2, 5 / 2], 0)" by code_simp
  have s0: "select_train ref_lib ex_data ex_conditions 1 0 42 = Inr (ex_train\<lparr>df_rows := []\<rparr>)"
    by code_simp
  have u0: "unspecific_coefs ref_lib 0 ex_data (ex_train\<lparr>df_rows := []\<rparr>) ex_conditions
      0.01 0.001 = Inl ValueError" by code_simp
  from count_mismatch_detected_late[OF l c(1,2) s2, of 0 "0.01" "0.001"] u2 c(3)
  have 1: "extract_mixing_matrix ref_lib 0 ex_data ex_conditions ex_counts_short 0.01 0.001 1 2 42
     = Inl ValueError" by blast
  from count_mismatch_detected_late[OF l c(1,2) s0, of 0 "0.01" "0.001"] u0
  have 2: "extract_mixing_matrix ref_lib 0 ex_data ex_conditions ex_counts_short 0.01 0.001 1 0 42
     = Inl ValueError" by blast
  from l c s2 u2 s0 u0 1 2 show ?thesis by simp
qed

section \<open>Masked bins and the fit\<close>

lemma log_transform_pos:
  "0 < eps \<Longrightarrow> log_transform eps xs = Inr (map (\<lambda>x. ln (max eps x)) xs)"
  by (auto simp: log_transform_def np_log_def list_all_iff less_max_iff_disj)

lemma np_log_specific:
  "0 < eps \<Longrightarrow> np_log (sample_specific_signal eps s coef c)
     = Inr (map ln (sample_specific_signal eps s coef c))"
  by (auto simp: np_log_def sample_specific_signal_def list_all_iff max_def dest!: set_zip_leftD)

lemma masked_agree:
  assumes "length xs = length m" "length ys = length m"
    and "\<forall>b < length m. m ! b \<longrightarrow> xs ! b = ys ! b"
  shows "map snd (filter fst (zip m xs)) = map snd (filter fst (zip m ys))"
  using assms
proof (induction m arbitrary: xs ys)
  case Nil
  then show ?case by simp
next
  case (Cons a m)
  from Cons.prems(1,2) obtain x xs' y ys' where xy: "xs = x # xs'" "ys = y # ys'"
    by (cases xs; cases ys) auto
  have tl: "\<forall>b < length m. m ! b \<longrightarrow> xs' ! b = ys' ! b"
    using Cons.prems(3) xy by (metis Suc_less_eq length_Cons nth_Cons_Suc)
  have hd: "a \<longrightarrow> x = y" using Cons.prems(3) xy by auto
  from Cons.IH[OF _ _ tl] Cons.prems(1,2) xy hd show ?case by simp
qed

lemma mask_select_agree:
  assumes "length xs = length m" "length ys = length m"
    and "\<forall>b < length m. m ! b \<longrightarrow> xs ! b = ys ! b"
  shows "mask_select m xs = mask_select m ys"
  using masked_agree[OF assms] assms(1,2) by (simp add: mask_select_def)

lemma masked_zip_snd:
  "length index = length xs \<Longrightarrow>
     map snd (map snd (filter fst (zip m (zip index xs)))) = map snd (filter fst (zip m xs))"
proof (induction m arbitrary: index xs)
  case Nil
  then show ?case by simp
next
  case (Cons a m)
  show ?case
  proof (cases xs)
    case Nil
    then show ?thesis by simp
  next
    case (Cons y ys)
    with Cons.prems obtain l ls where "index = l # ls" "length ls = length ys"
      by (cases index) auto
    with Cons.IH[of ls ys] Cons show ?thesis by simp
  qed
qed

lemma mask_select_labelled:
  assumes "length index = length m" "length index' = length m"
    and "length xs = length m" "length ys = length m"
    and "\<forall>b < length m. m ! b \<longrightarrow> index ! b = index' ! b"
    and "\<forall>b < length m. m ! b \<longrightarrow> xs ! b = ys ! b"
  shows "mask_select m (zip index xs) = mask_select m (zip index' ys)"
proof (rule mask_select_agree)
  show "length (zip index xs) = length m" "length (zip index' ys) = length m"
    using assms(1-4) by simp_all
  show "\<forall>b < length m. m ! b \<longrightarrow> zip index xs ! b = zip index' ys ! b"
    using assms by simp
qed

lemma HSR_fit_masked:
  assumes "mask_select bl_mask ct = Inr cm" "mask_select bl_mask (zip index tt) = Inr tser"
  shows "HSR_fit lib index bl_mask ct tt =
           bind_err (series_getitem lib tser (fit_ixs cm (map snd tser)))
             (LinearRegression_fit lib (map (\<lambda>i. cm ! i) (fit_ixs cm (map snd tser))))"
  using assms by (simp add: HSR_fit_def bind_err_def)

text \<open>
  Claim C4. Let \<open>c\<close>, \<open>x\<close> and \<open>c'\<close>, \<open>x'\<close> be the control column and a treatment column
  (for \<open>run_HSR_replicates\<close>: a replicate's coverage column) of two inputs that agree,
  label and numbers, on every bin the mask keeps. Then the transformed series of both
  variants agree under the mask, and so do the bins chosen by the two medians, the
  treatment values pandas finds for them and the outcome of the fit: the same
  coefficient, or the same error.
\<close>

theorem HSR_fit_ignores_masked_bins:
  assumes "0 < eps"
    and "length index = length bl_mask" "length index' = length bl_mask"
    and "length c = length bl_mask" "length c' = length bl_mask"
    and "length x = length bl_mask" "length x' = length bl_mask"
    and "\<forall>b < length bl_mask. bl_mask ! b \<longrightarrow>
           index ! b = index' ! b \<and> c ! b = c' ! b \<and> x ! b = x' ! b"
  shows "\<exists>ct ct' xt xt' rt rt' cm tm rm tser rser.
           log_transform eps c = Inr ct \<and> log_transform eps c' = Inr ct' \<and>
           log_transform eps x = Inr xt \<and> log_transform eps x' = Inr xt' \<and>
           np_log (sample_specific_signal eps x tissue_coef c) = Inr rt \<and>
           np_log (sample_specific_signal eps x' tissue_coef c') = Inr rt' \<and>
           mask_select bl_mask ct = Inr cm \<and> mask_select bl_mask ct' = Inr cm \<and>
           mask_select bl_mask xt = Inr tm \<and> mask_select bl_mask xt' = Inr tm \<and>
           mask_select bl_mask rt = Inr rm \<and> mask_select bl_mask rt' = Inr rm \<and>
           mask_select bl_mask (zip index xt) = Inr tser \<and>
           mask_select bl_mask (zip index' xt') = Inr tser \<and> map snd tser = tm \<and>
           mask_select bl_mask (zip index rt) = Inr rser \<and>
           mask_select bl_mask (zip index' rt') = Inr rser \<and> map snd rser = rm \<and>
           HSR_fit lib index bl_mask ct xt = HSR_fit lib index' bl_mask ct' xt' \<and>
           HSR_fit lib index bl_mask ct xt =
             bind_err (series_getitem lib tser (fit_ixs cm tm))
               (LinearRegression_fit lib (map (\<lambda>i. cm ! i) (fit_ixs cm tm))) \<and>
           HSR_fit lib index bl_mask ct rt = HSR_fit lib index' bl_mask ct' rt' \<and>
           HSR_fit lib index bl_mask ct rt =
             bind_err (series_getitem lib rser (fit_ixs cm rm))
               (LinearRegression_fit lib (map (\<lambda>i. cm ! i) (fit_ixs cm rm)))"
proof -
  define ct where "ct = map (\<lambda>v. ln (max eps v)) c"
  define ct' where "ct' = map (\<lambda>v. ln (max eps v)) c'"
  define xt where "xt = map (\<lambda>v. ln (max eps v)) x"
  define xt' where "xt' = map (\<lambda>v. ln (max eps v)) x'"
  define rt where "rt = map ln (sample_specific_signal eps x tissue_coef c)"
  define rt' where "rt' = map ln (sample_specific_signal eps x' tissue_coef c')"
  note li = assms(2) and li' = assms(3)
  note len = assms(4-7)
  note agree = assms(8)
  have L: "length ct = length bl_mask" "length ct' = length bl_mask"
    "length xt = length bl_mask" "length xt' = length bl_mask"
    "length rt = length bl_mask" "length rt' = length bl_mask"
    using len by (simp_all add: ct_def ct'_def xt_def xt'_def rt_def rt'_def
        sample_specific_signal_def)
  have ai: "\<forall>b < length bl_mask. bl_mask ! b \<longrightarrow> index ! b = index' ! b"
    using agree by simp
  have ac: "\<forall>b < length bl_mask. bl_mask ! b \<longrightarrow> ct ! b = ct' ! b"
    using agree len by (simp add: ct_def ct'_def)
  have ax: "\<forall>b < length bl_mask. bl_mask ! b \<longrightarrow> xt ! b = xt' ! b"
    using agree len by (simp add: xt_def xt'_def)
  have ar: "\<forall>b < length bl_mask. bl_mask ! b \<longrightarrow> rt ! b = rt' ! b"
    using agree len by (simp add: rt_def rt'_def sample_specific_signal_def)
  define cm where "cm = map snd (filter fst (zip bl_mask ct))"
  define tm where "tm = map snd (filter fst (zip bl_mask xt))"
  define rm where "rm = map snd (filter fst (zip bl_mask rt))"
  define tser where "tser = map snd (filter fst (zip bl_mask (zip index xt)))"
  define rser where "rser = map snd (filter fst (zip bl_mask (zip index rt)))"
  have M: "mask_select bl_mask ct = Inr cm" "mask_select bl_mask xt = Inr tm"
    "mask_select bl_mask rt = Inr rm"
    using L by (simp_all add: mask_select_def cm_def tm_def rm_def)
  have M': "mask_select bl_mask ct' = Inr cm" "mask_select bl_mask xt' = Inr tm"
    "mask_select bl_mask rt' = Inr rm"
    using mask_select_agree[OF L(1,2) ac] mask_select_agree[OF L(3,4) ax]
      mask_select_agree[OF L(5,6) ar] M by simp_all
  have S: "mask_select bl_mask (zip index xt) = Inr tser"
    "mask_select bl_mask (zip index rt) = Inr rser"
    using L li by (simp_all add: mask_select_def tser_def rser_def)
  have S': "mask_select bl_mask (zip index' xt') = Inr tser"
    "mask_select bl_mask (zip index' rt') = Inr rser"
    using mask_select_labelled[OF li li' L(3,4) ai ax]
      mask_select_labelled[OF li li' L(5,6) ai ar] S
    by simp_all
  have V: "map snd tser = tm" "map snd rser = rm"
    using masked_zip_snd[of index xt bl_mask] masked_zip_snd[of index rt bl_mask] L li
    by (simp_all add: tser_def rser_def tm_def rm_def)
  have F: "HSR_fit lib index bl_mask ct xt =
             bind_err (series_getitem lib tser (fit_ixs cm tm))
               (LinearRegression_fit lib (map (\<lambda>i. cm ! i) (fit_ixs cm tm)))"
    "HSR_fit lib index' bl_mask ct' xt' =
             bind_err (series_getitem lib tser (fit_ixs cm tm))
               (LinearRegression_fit lib (map (\<lambda>i. cm ! i) (fit_ixs cm tm)))"
    "HSR_fit lib index bl_mask ct rt =
             bind_err (series_getitem lib rser (fit_ixs cm rm))
               (LinearRegression_fit lib (map (\<lambda>i. cm ! i) (fit_ixs cm rm)))"
    "HSR_fit lib index' bl_mask ct' rt' =
             bind_err (series_getitem lib rser (fit_ixs cm rm))
               (LinearRegression_fit lib (map (\<lambda>i. cm ! i) (fit_ixs cm rm)))"
    using HSR_fit_masked[OF M(1) S(1), of lib] HSR_fit_masked[OF M'(1) S'(1), of lib]
      HSR_fit_masked[OF M(1) S(2), of lib] HSR_fit_masked[OF M'(1) S'(2), of lib] V
    by simp_all
  have T: "log_transform eps c = Inr ct" "log_transform eps c' = Inr ct'"
    "log_transform eps x = Inr xt" "log_transform eps x' = Inr xt'"
    using assms(1) by (simp_all add: log_transform_pos ct_def ct'_def xt_def xt'_def)
  have R: "np_log (sample_specific_signal eps x tissue_coef c) = Inr rt"
    "np_log (sample_specific_signal eps x' tissue_coef c') = Inr rt'"
    using assms(1) by (simp_all add: np_log_specific rt_def rt'_def)
  show ?thesis
    apply (rule exI[of _ ct], rule exI[of _ ct'], rule exI[of _ xt], rule exI[of _ xt'])
    apply (rule exI[of _ rt], rule exI[of _ rt'], rule exI[of _ cm], rule exI[of _ tm])
    apply (rule exI[of _ rm], rule exI[of _ tser], rule exI[of _ rser])
    using T R M M' S S' V F by simp
qed

text \<open>
  The sample columns of four bins labelled 0 to 3, the last one masked out: the fit
  pairs the control value 2 with the treatment value 4 of the bin labelled 2.
\<close>

lemma ex_HSR_fit:
  "HSR_fit ref_lib ex_index ex_mask [0, 1, 2, 0] [0, 2, 4, ln 7] = Inr 2"
  by (simp add: HSR_fit_def mask_select_def ex_mask_def ex_index_def fit_ixs_def np_median_def
      above_def ref_lib_def series_getitem_def holds_integer_def loc_keys_def bind_err_def)

lemma ex_log_transform:
  "log_transform 1 [1, exp 1, exp 2, 0] = Inr [0, 1, 2, 0]"
  "log_transform 1 [1, exp 1, exp 2, 5] = Inr [0, 1, 2, ln 5]"
  "log_transform 1 [1, exp 2, exp 4, 7] = Inr [0, 2, 4, ln 7]"
  by (simp_all add: log_transform_def np_log_def)

theorem HSR_fit_ignores_masked_bins_witness:
  "(0::real) < 1 \<and> length ex_index = length ex_mask \<and>
   length ex_index_alt = length ex_mask \<and>
   length [1, exp 1, exp 2, 0 :: real] = length ex_mask \<and>
   length [1, exp 1, exp 2, 5 :: real] = length ex_mask \<and>
   length [1, exp 2, exp 4, 7 :: real] = length ex_mask \<and>
   length [1, exp 2, exp 4, 9 :: real] = length ex_mask \<and>
   ex_mask = [True, True, True, False] \<and>
   take 3 ex_index = take 3 ex_index_alt \<and>
   take 3 [1, exp 1, exp 2, 0 :: real] = take 3 [1, exp 1, exp 2, 5] \<and>
   take 3 [1, exp 2, exp 4, 7 :: real] = take 3 [1, exp 2, exp 4, 9] \<and>
   (\<exists>ct ct' xt xt' rt rt' cm tm rm tser rser.
      log_transform 1 [1, exp 1, exp 2, 0] = Inr ct \<and>
      log_transform 1 [1, exp 1, exp 2, 5] = Inr ct' \<and>
      log_transform 1 [1, exp 2, exp 4, 7] = Inr xt \<and>
      log_transform 1 [1, exp 2, exp 4, 9] = Inr xt' \<and>
      np_log (sample_specific_signal 1 [1, exp 2, exp 4, 7] (1 / 2) [1, exp 1, exp 2, 0])
        = Inr rt \<and>
      np_log (sample_specific_signal 1 [1, exp 2, exp 4, 9] (1 / 2) [1, exp 1, exp 2, 5])
        = Inr rt' \<and>
      mask_select ex_mask ct = Inr cm \<and> mask_select ex_mask ct' = Inr cm \<and>
      mask_select ex_mask xt = Inr tm \<and> mask_select ex_mask xt' = Inr tm \<and>
      mask_select ex_mask rt = Inr rm \<and> mask_select ex_mask rt' = Inr rm \<and>
      mask_select ex_mask (zip ex_index xt) = Inr tser \<and>
      mask_select ex_mask (zip ex_index_alt xt') = Inr tser \<and> map snd tser = tm \<and>
      mask_select ex_mask (zip ex_index rt) = Inr rser \<and>
      mask_select ex_mask (zip ex_index_alt rt') = Inr rser \<and> map snd rser = rm \<and>
      HSR_fit ref_lib ex_index ex_mask ct xt = HSR_fit ref_lib ex_index_alt ex_mask ct' xt' \<and>
      HSR_fit ref_lib ex_index ex_mask ct xt =
        bind_err (series_getitem ref_lib tser (fit_ixs cm tm))
          (LinearRegression_fit ref_lib (map (\<lambda>i. cm ! i) (fit_ixs cm tm))) \<and>
      HSR_fit ref_lib ex_index ex_mask ct rt = HSR_fit ref_lib ex_index_alt ex_mask ct' rt' \<and>
      HSR_fit ref_lib ex_index ex_mask ct rt =
        bind_err (series_getitem ref_lib rser (fit_ixs cm rm))
          (LinearRegression_fit ref_lib (map (\<lambda>i. cm ! i) (fit_ixs cm rm))) \<and>
      HSR_fit ref_lib ex_index ex_mask ct xt = Inr 2)"
proof -
  have e: "(0::real) < 1" by simp
  have i: "length ex_index = length ex_mask"
    "length ex_index_alt = length ex_mask"
    by (simp_all add: ex_index_def ex_index_alt_def ex_mask_def)
  have l: "length [1, exp 1, exp 2, 0 :: real] = length ex_mask"
    "length [1, exp 1, exp 2, 5 :: real] = length ex_mask"
    "length [1, exp 2, exp 4, 7 :: real] = length ex_mask"
    "length [1, exp 2, exp 4, 9 :: real] = length ex_mask" by (simp_all add: ex_mask_def)
  have a: "\<forall>b < length ex_mask. ex_mask ! b \<longrightarrow>
      ex_index ! b = ex_index_alt ! b \<and>
      [1, exp 1, exp 2, 0 :: real] ! b = [1, exp 1, exp 2, 5] ! b \<and>
      [1, exp 2, exp 4, 7 :: real] ! b = [1, exp 2, exp 4, 9] ! b"
    by (auto simp: less_Suc_eq ex_mask_def ex_index_def ex_index_alt_def)
  have m: "ex_mask = [True, True, True, False]" by (simp add: ex_mask_def)
  have b: "take 3 ex_index = take 3 ex_index_alt"
    "take 3 [1, exp 1, exp 2, 0 :: real] = take 3 [1, exp 1, exp 2, 5]"
    "take 3 [1, exp 2, exp 4, 7 :: real] = take 3 [1, exp 2, exp 4, 9]"
    by (simp_all add: numeral_3_eq_3 ex_index_def ex_index_alt_def)
  from HSR_fit_ignores_masked_bins[OF e i l a, of "1 / 2" ref_lib]
  obtain ct ct' xt xt' rt rt' cm tm rm tser rser where P:
      "log_transform 1 [1, exp 1, exp 2, 0] = Inr ct"
      "log_transform 1 [1, exp 1, exp 2, 5] = Inr ct'"
      "log_transform 1 [1, exp 2, exp 4, 7] = Inr xt"
      "log_transform 1 [1, exp 2, exp 4, 9] = Inr xt'"
      "np_log (sample_specific_signal 1 [1, exp 2, exp 4, 7] (1 / 2) [1, exp 1, exp 2, 0])
        = Inr rt"
      "np_log (sample_specific_signal 1 [1, exp 2, exp 4, 9] (1 / 2) [1, exp 1, exp 2, 5])
        = Inr rt'"
      "mask_select ex_mask ct = Inr cm" "mask_select ex_mask ct' = Inr cm"
      "mask_select ex_mask xt = Inr tm" "mask_select ex_mask xt' = Inr tm"
      "mask_select ex_mask rt = Inr rm" "mask_select ex_mask rt' = Inr rm"
      "mask_select ex_mask (zip ex_index xt) = Inr tser"
      "mask_select ex_mask (zip ex_index_alt xt') = Inr tser" "map snd tser = tm"
      "mask_select ex_mask (zip ex_index rt) = Inr rser"
      "mask_select ex_mask (zip ex_index_alt rt') = Inr rser" "map snd rser = rm"
      "HSR_fit ref_lib ex_index ex_mask ct xt = HSR_fit ref_lib ex_index_alt ex_mask ct' xt'"
      "HSR_fit ref_lib ex_index ex_mask ct xt =
        bind_err (series_getitem ref_lib tser (fit_ixs cm tm))
          (LinearRegression_fit ref_lib (map (\<lambda>i. cm ! i) (fit_ixs cm tm)))"
      "HSR_fit ref_lib ex_index ex_mask ct rt = HSR_fit ref_lib ex_index_alt ex_mask ct' rt'"
      "HSR_fit ref_lib ex_index ex_mask ct rt =
        bind_err (series_getitem ref_lib rser (fit_ixs cm rm))
          (LinearRegression_fit ref_lib (map (\<lambda>i. cm ! i) (fit_ixs cm rm)))"
    by (elim exE conjE)
  from P(1,3) have "ct = [0, 1, 2, 0]" "xt = [0, 2, 4, ln 7]"
    by (simp_all add: ex_log_transform)
  then have v: "HSR_fit ref_lib ex_index ex_mask ct xt = Inr 2" by (simp add: ex_HSR_fit)
  have "\<exists>ct ct' xt xt' rt rt' cm tm rm tser rser.
      log_transform 1 [1, exp 1, exp 2, 0] = Inr ct \<and>
      log_transform 1 [1, exp 1, exp 2, 5] = Inr ct' \<and>
      log_transform 1 [1, exp 2, exp 4, 7] = Inr xt \<and>
      log_transform 1 [1, exp 2, exp 4, 9] = Inr xt' \<and>
      np_log (sample_specific_signal 1 [1, exp 2, exp 4, 7] (1 / 2) [1, exp 1, exp 2, 0])
        = Inr rt \<and>
      np_log (sample_specific_signal 1 [1, exp 2, exp 4, 9] (1 / 2) [1, exp 1, exp 2, 5])
        = Inr rt' \<and>
      mask_select ex_mask ct = Inr cm \<and> mask_select ex_mask ct' = Inr cm \<and>
      mask_select ex_mask xt = Inr tm \<and> mask_select ex_mask xt' = Inr tm \<and>
      mask_select ex_mask rt = Inr rm \<and> mask_select ex_mask rt' = Inr rm \<and>
      mask_select ex_mask (zip ex_index xt) = Inr tser \<and>
      mask_select ex_mask (zip ex_index_alt xt') = Inr tser \<and> map snd tser = tm \<and>
      mask_select ex_mask (zip ex_index rt) = Inr rser \<and>
      mask_select ex_mask (zip ex_index_alt rt') = Inr rser \<and> map snd rser = rm \<and>
      HSR_fit ref_lib ex_index ex_mask ct xt = HSR_fit ref_lib ex_index_alt ex_mask ct' xt' \<and>
      HSR_fit ref_lib ex_index ex_mask ct xt =
        bind_err (series_getitem ref_lib tser (fit_ixs cm tm))
          (LinearRegression_fit ref_lib (map (\<lambda>i. cm ! i) (fit_ixs cm tm))) \<and>
      HSR_fit ref_lib ex_index ex_mask ct rt = HSR_fit ref_lib ex_index_alt ex_mask ct' rt' \<and>
      HSR_fit ref_lib ex_index ex_mask ct rt =
        bind_err (series_getitem ref_lib rser (fit_ixs cm rm))
          (LinearRegression_fit ref_lib (map (\<lambda>i. cm ! i) (fit_ixs cm rm))) \<and>
      HSR_fit ref_lib ex_index ex_mask ct xt = Inr 2"
    apply (rule exI[of _ ct], rule exI[of _ ct'], rule exI[of _ xt], rule exI[of _ xt'])
    apply (rule exI[of _ rt], rule exI[of _ rt'], rule exI[of _ cm], rule exI[of _ tm])
    apply (rule exI[of _ rm], rule exI[of _ tser], rule exI[of _ rser])
    apply (intro conjI)
    apply (rule P v)+
    done
  with e i l m b show ?thesis by (intro conjI) assumption+
qed

text \<open>
  The treatment values are found by label, not by position. With the first of the four
  bins masked out, the bin above both medians is at position 2 of the masked series and
  has the label 3; the fit pairs its control value 2 with the treatment value 2 of the
  bin labelled 2, and the coefficient is 1 (read by position it would be 4 over 2). With
  a middle bin masked out, the position 1 is the label of no bin that is left. On an
  index without integers the positions are used, unless pandas is 3.0 or later.
\<close>

lemma ex_HSR_fit_label:
  "HSR_fit ref_lib ex_index [False, True, True, True] [0, 0, 1, 2] [ln 7, 0, 2, 4] = Inr 1"
  by (simp add: HSR_fit_def mask_select_def ex_index_def fit_ixs_def np_median_def
      above_def ref_lib_def series_getitem_def holds_integer_def loc_keys_def bind_err_def)

lemma ex_HSR_fit_KeyError:
  "HSR_fit ref_lib [IntLabel 0, IntLabel 1, IntLabel 2] [True, False, True] [0, 5, 1] [0, 7, 2]
     = Inl KeyError"
  by (simp add: HSR_fit_def mask_select_def fit_ixs_def np_median_def
      above_def ref_lib_def series_getitem_def holds_integer_def loc_keys_def bind_err_def)

lemma ex_HSR_fit_position:
  "HSR_fit ref_lib [Label ''a'', Label ''b'', Label ''c'', Label ''d'']
     [False, True, True, True] [0, 0, 1, 2] [ln 7, 0, 2, 4] = Inr 2"
  "HSR_fit (ref_lib\<lparr>positional_fallback := False\<rparr>)
     [Label ''a'', Label ''b'', Label ''c'', Label ''d'']
     [False, True, True, True] [0, 0, 1, 2] [ln 7, 0, 2, 4] = Inl KeyError"
  by (simp_all add: HSR_fit_def mask_select_def fit_ixs_def np_median_def
      above_def ref_lib_def series_getitem_def holds_integer_def loc_keys_def iloc_keys_def
      bind_err_def)

section \<open>The output table of the normalizer\<close>

lemma map_of_set_column:
  "map_of (set_column out n c) n' = (if n' = n then Some c else map_of out n')"
proof (cases "n \<in> fst ` set out")
  case True
  have "map_of (map (\<lambda>nc. if fst nc = n then (n, c) else nc) out) n'
          = (if n' = n then map_option (\<lambda>_. c) (map_of out n) else map_of out n')"
    by (induction out) auto
  moreover from True have "map_of out n \<noteq> None" by (simp add: map_of_eq_None_iff)
  ultimately show ?thesis using True by (auto simp: set_column_def)
next
  case False
  then have "map_of out n = None" by (simp add: map_of_eq_None_iff)
  with False show ?thesis by (auto simp: set_column_def map_add_def split: option.splits)
qed

lemma set_set_column:
  "set (set_column out n c) \<subseteq> set out \<union> {(n, c)}"
  by (auto simp: set_column_def)

lemma suffix_names_differ: "t @ '' HSR Value'' \<noteq> t' @ '' fit''"
proof
  assume "t @ '' HSR Value'' = t' @ '' fit''"
  then have "last (t @ '' HSR Value'') = last (t' @ '' fit'')" by simp
  then show False by simp
qed

lemma write_columns_other:
  assumes "\<forall>p \<in> set ps. n \<noteq> fst p @ '' HSR Value'' \<and> n \<noteq> fst p @ '' fit''"
  shows "map_of (write_columns ps out) n = map_of out n"
  using assms
  by (induction ps out rule: write_columns.induct) (simp_all add: map_of_set_column)

lemma write_columns_both:
  assumes "t \<in> fst ` set ps"
  shows "\<exists>track pred. (t, track, pred) \<in> set ps \<and>
           map_of (write_columns ps out) (t @ '' HSR Value'') = Some track \<and>
           map_of (write_columns ps out) (t @ '' fit'') = Some pred"
  using assms
proof (induction ps out rule: write_columns.induct)
  case (1 out)
  then show ?case by simp
next
  case (2 name track pred rest out)
  define out1 where
    "out1 = set_column (set_column out (name @ '' HSR Value'') track) (name @ '' fit'') pred"
  show ?case
  proof (cases "t \<in> fst ` set rest")
    case True
    from "2.IH"[OF True] show ?thesis by auto
  next
    case False
    with "2.prems" have t: "t = name" by auto
    have other: "\<forall>p \<in> set rest. name @ '' HSR Value'' \<noteq> fst p @ '' HSR Value'' \<and>
                   name @ '' HSR Value'' \<noteq> fst p @ '' fit''"
      "\<forall>p \<in> set rest. name @ '' fit'' \<noteq> fst p @ '' HSR Value'' \<and>
                   name @ '' fit'' \<noteq> fst p @ '' fit''"
      using False suffix_names_differ suffix_names_differ[symmetric] unfolding t by force+
    have "map_of (write_columns rest out1) (name @ '' HSR Value'') = Some track"
      unfolding write_columns_other[OF other(1)] out1_def map_of_set_column
      using suffix_names_differ by simp
    moreover have "map_of (write_columns rest out1) (name @ '' fit'') = Some pred"
      unfolding write_columns_other[OF other(2)] out1_def map_of_set_column by simp
    ultimately show ?thesis by (auto simp: t out1_def)
  qed
qed

lemma write_columns_set:
  "(n, col) \<in> set (write_columns ps out) \<Longrightarrow>
   (n, col) \<in> set out \<or> (\<exists>p \<in> set ps. col = fst (snd p) \<or> col = snd (snd p))"
proof (induction ps out rule: write_columns.induct)
  case (1 out)
  then show ?case by simp
next
  case (2 name track pred rest out)
  from "2.prems" have "(n, col) \<in> set (write_columns rest
      (set_column (set_column out (name @ '' HSR Value'') track) (name @ '' fit'') pred))"
    by simp
  from "2.IH"[OF this] show ?case
  proof
    assume "(n, col) \<in> set (set_column (set_column out (name @ '' HSR Value'') track)
                              (name @ '' fit'') pred)"
    then have "(n, col) \<in> set out \<or> col = track \<or> col = pred"
      using set_set_column[of "set_column out (name @ '' HSR Value'') track" "name @ '' fit''" pred]
        set_set_column[of out "name @ '' HSR Value''" track] by auto
    then show ?thesis by auto
  next
    assume "\<exists>p \<in> set rest. col = fst (snd p) \<or> col = snd (snd p)"
    then show ?thesis by auto
  qed
qed

lemma HSR_loop_writes:
  "HSR_loop lib wmat bl_mask eps ct ts out = Inr out' \<Longrightarrow>
   \<exists>rs. length rs = length ts \<and>
        (\<forall>k < length ts. HSR_condition lib wmat bl_mask eps ct (ts ! k) = Inr (rs ! k)) \<and>
        out' = write_columns (zip ts rs) out"
proof (induction ts arbitrary: out)
  case Nil
  then show ?case by simp
next
  case (Cons t ts)
  from Cons.prems obtain track pred where
    b: "HSR_condition lib wmat bl_mask eps ct t = Inr (track, pred)" and
    l: "HSR_loop lib wmat bl_mask eps ct ts
          (set_column (set_column out (t @ '' HSR Value'') track) (t @ '' fit'') pred) = Inr out'"
    by (auto simp: bind_err_Inr)
  from Cons.IH[OF l] obtain rs where rs: "length rs = length ts"
    "\<forall>k < length ts. HSR_condition lib wmat bl_mask eps ct (ts ! k) = Inr (rs ! k)"
    "out' = write_columns (zip ts rs)
        (set_column (set_column out (t @ '' HSR Value'') track) (t @ '' fit'') pred)"
    by blast
  show ?case
  proof (intro exI[of _ "(track, pred) # rs"] conjI allI impI)
    show "length ((track, pred) # rs) = length (t # ts)" using rs(1) by simp
    show "out' = write_columns (zip (t # ts) ((track, pred) # rs)) out" using rs(3) by simp
    fix k assume "k < length (t # ts)"
    then show "HSR_condition lib wmat bl_mask eps ct ((t # ts) ! k) = Inr (((track, pred) # rs) ! k)"
      using b rs(2) by (cases k) simp_all
  qed
qed

lemma HSR_replicates_loop_writes:
  "HSR_replicates_loop lib replicates wmat mmat bl_mask eps ct tissue n i ts out = Inr out' \<Longrightarrow>
   \<exists>rs. length rs = length ts \<and>
        (\<forall>k < length ts. HSR_replicate lib replicates wmat mmat bl_mask eps ct tissue n (i + k)
                            (ts ! k) = Inr (rs ! k)) \<and>
        out' = write_columns (zip ts rs) out"
proof (induction ts arbitrary: out i)
  case Nil
  then show ?case by simp
next
  case (Cons t ts)
  from Cons.prems obtain track pred where
    b: "HSR_replicate lib replicates wmat mmat bl_mask eps ct tissue n i t = Inr (track, pred)" and
    l: "HSR_replicates_loop lib replicates wmat mmat bl_mask eps ct tissue n (i + 1) ts
          (set_column (set_column out (t @ '' HSR Value'') track) (t @ '' fit'') pred) = Inr out'"
    by (auto simp: bind_err_Inr)
  from Cons.IH[OF l] obtain rs where rs: "length rs = length ts"
    "\<forall>k < length ts. HSR_replicate lib replicates wmat mmat bl_mask eps ct tissue n (i + 1 + k)
                            (ts ! k) = Inr (rs ! k)"
    "out' = write_columns (zip ts rs)
        (set_column (set_column out (t @ '' HSR Value'') track) (t @ '' fit'') pred)"
    by blast
  show ?case
  proof (intro exI[of _ "(track, pred) # rs"] conjI allI impI)
    show "length ((track, pred) # rs) = length (t # ts)" using rs(1) by simp
    show "out' = write_columns (zip (t # ts) ((track, pred) # rs)) out" using rs(3) by simp
    fix k assume "k < length (t # ts)"
    then show "HSR_replicate lib replicates wmat mmat bl_mask eps ct tissue n (i + k)
                 ((t # ts) ! k) = Inr (((track, pred) # rs) ! k)"
      using b rs(2) by (cases k) simp_all
  qed
qed

lemma HSR_predict_Inr:
  assumes "HSR_predict reg ct tt = Inr (track, pred)"
  shows "length tt = length ct" "length track = length ct" "length pred = length ct"
    "\<forall>b < length ct. 1 / 2 \<le> pred ! b \<and> 0 < track ! b \<and> track ! b * pred ! b = exp (tt ! b)"
proof -
  from assms have len: "length tt = length ct"
    and tr: "track = map2 (\<lambda>t p. exp (t - p)) tt (map (\<lambda>x. max (reg * x) (ln 0.5)) ct)"
    and pr: "pred = map exp (map (\<lambda>x. max (reg * x) (ln 0.5)) ct)"
    by (auto simp: HSR_predict_def Let_def split: if_splits)
  show "length tt = length ct" by (rule len)
  show "length track = length ct" using tr len by simp
  show "length pred = length ct" using pr by simp
  show "\<forall>b < length ct. 1 / 2 \<le> pred ! b \<and> 0 < track ! b \<and> track ! b * pred ! b = exp (tt ! b)"
  proof (intro allI impI)
    fix b assume b: "b < length ct"
    have "exp (ln (1 / 2)) \<le> exp (max (reg * ct ! b) (ln (1 / 2)))"
      by (subst exp_le_cancel_iff) simp
    then have 1: "1 / 2 \<le> pred ! b" using b pr by simp
    have 2: "track ! b = exp (tt ! b - max (reg * ct ! b) (ln (1 / 2)))"
      using b len tr by simp
    have 3: "pred ! b = exp (max (reg * ct ! b) (ln (1 / 2)))" using b pr by simp
    have "track ! b * pred ! b = exp (tt ! b)"
      unfolding 2 3 by (simp add: exp_add[symmetric])
    with 1 2 show "1 / 2 \<le> pred ! b \<and> 0 < track ! b \<and> track ! b * pred ! b = exp (tt ! b)"
      by simp
  qed
qed

lemma df_column_length: "df_column df name = Inr xs \<Longrightarrow> length xs = length (df_rows df)"
  by (auto simp: df_column_def split: if_splits)

lemma HSR_condition_Inr:
  assumes "0 < eps" and "HSR_condition lib wmat bl_mask eps ct t = Inr (track, pred)"
  shows "\<exists>x. df_column wmat t = Inr x \<and> length x = length ct \<and>
             length track = length x \<and> length pred = length x \<and>
             (\<forall>b < length x. 1 / 2 \<le> pred ! b \<and> 0 < track ! b \<and>
                track ! b * pred ! b = max eps (x ! b))"
proof -
  from assms(2) obtain x tt reg where x: "df_column wmat t = Inr x"
    and tt: "log_transform eps x = Inr tt"
    and p: "HSR_predict reg ct tt = Inr (track, pred)"
    unfolding HSR_condition_def by (auto simp: bind_err_Inr)
  from tt assms(1) have tt': "tt = map (\<lambda>v. ln (max eps v)) x"
    by (simp add: log_transform_pos)
  note P = HSR_predict_Inr[OF p]
  have len: "length x = length ct" using P(1) tt' by simp
  have "1 / 2 \<le> pred ! b \<and> 0 < track ! b \<and> track ! b * pred ! b = max eps (x ! b)"
    if b: "b < length x" for b
  proof -
    have "0 < max eps (x ! b)" using assms(1) by (simp add: less_max_iff_disj)
    then have "exp (tt ! b) = max eps (x ! b)" using b tt' by simp
    with P(4) b len show ?thesis by simp
  qed
  with x len P(2,3) show ?thesis by simp
qed

section \<open>Floors of the pooled normalizer\<close>

text \<open>
  Claim C5. With a positive \<open>eps\<close> every logarithm \<open>run_HSR\<close> takes is that of
  \<open>max eps x\<close>, never of a number that is not positive. In the table it returns, each
  treatment condition has its two columns, one entry per bin: the fitted baseline is at
  least \<open>0.5\<close> everywhere, and the normalized value is the floored signal \<open>max eps x\<close>
  divided by that baseline.
\<close>

theorem run_HSR_floor:
  assumes "0 < eps" and "run_HSR lib wmat bl_mask conditions_list eps = Inr out"
  shows "(\<forall>xs. log_transform eps xs = Inr (map (\<lambda>v. ln (max eps v)) xs) \<and>
               (\<forall>v \<in> set xs. 0 < max eps v)) \<and>
         (\<forall>t \<in> set (tl conditions_list).
            \<exists>x track fit.
              df_column wmat t = Inr x \<and>
              map_of out (t @ '' HSR Value'') = Some track \<and>
              map_of out (t @ '' fit'') = Some fit \<and>
              length track = length x \<and> length fit = length x \<and>
              (\<forall>b < length x. 1 / 2 \<le> fit ! b \<and> track ! b * fit ! b = max eps (x ! b) \<and>
                 track ! b = max eps (x ! b) / fit ! b))"
proof (intro conjI allI ballI)
  fix xs show "log_transform eps xs = Inr (map (\<lambda>v. ln (max eps v)) xs)"
    using assms(1) by (rule log_transform_pos)
next
  fix xs v show "0 < max eps v" using assms(1) by (simp add: less_max_iff_disj)
next
  fix t assume t: "t \<in> set (tl conditions_list)"
  from assms(2) obtain control ts c ct where cl: "conditions_list = control # ts"
    and l: "HSR_loop lib wmat bl_mask eps ct ts [] = Inr out"
    unfolding run_HSR_def by (auto simp: bind_err_Inr split: list.splits)
  from HSR_loop_writes[OF l] obtain rs where rs: "length rs = length ts"
    "\<forall>k < length ts. HSR_condition lib wmat bl_mask eps ct (ts ! k) = Inr (rs ! k)"
    "out = write_columns (zip ts rs) []" by blast
  from t cl rs(1) have "t \<in> fst ` set (zip ts rs)"
    by (metis list.sel(3) map_fst_zip set_map)
  from write_columns_both[OF this, of "[]"] obtain track pred where
    m: "(t, track, pred) \<in> set (zip ts rs)"
    "map_of out (t @ '' HSR Value'') = Some track" "map_of out (t @ '' fit'') = Some pred"
    using rs(3) by auto
  from m(1) obtain k where "k < length ts" "ts ! k = t" "rs ! k = (track, pred)"
    by (auto simp: in_set_zip)
  with rs(2) have "HSR_condition lib wmat bl_mask eps ct t = Inr (track, pred)" by auto
  from HSR_condition_Inr[OF assms(1) this] obtain x where x: "df_column wmat t = Inr x"
    "length track = length x" "length pred = length x"
    "\<forall>b < length x. 1 / 2 \<le> pred ! b \<and> 0 < track ! b \<and> track ! b * pred ! b = max eps (x ! b)"
    by blast
  have "\<forall>b < length x. 1 / 2 \<le> pred ! b \<and> track ! b * pred ! b = max eps (x ! b) \<and>
                 track ! b = max eps (x ! b) / pred ! b"
  proof (intro allI impI)
    fix b assume "b < length x"
    with x(4) have h: "1 / 2 \<le> pred ! b" "track ! b * pred ! b = max eps (x ! b)" by auto
    then have "pred ! b \<noteq> 0" by auto
    with h show "1 / 2 \<le> pred ! b \<and> track ! b * pred ! b = max eps (x ! b) \<and>
                 track ! b = max eps (x ! b) / pred ! b"
      by (simp add: field_simps)
  qed
  with x m show "\<exists>x track fit.
              df_column wmat t = Inr x \<and>
              map_of out (t @ '' HSR Value'') = Some track \<and>
              map_of out (t @ '' fit'') = Some fit \<and>
              length track = length x \<and> length fit = length x \<and>
              (\<forall>b < length x. 1 / 2 \<le> fit ! b \<and> track ! b * fit ! b = max eps (x ! b) \<and>
                 track ! b = max eps (x ! b) / fit ! b)"
    by blast
qed

lemma ln_half_le: "ln (1 / 2 :: real) \<le> 0" "max 2 (ln (1 / 2 :: real)) = 2"
  "max 4 (ln (1 / 2 :: real)) = 4"
proof -
  show a: "ln (1 / 2 :: real) \<le> 0" by simp
  from a have b: "ln (1 / 2 :: real) \<le> 2" "ln (1 / 2 :: real) \<le> 4" by linarith+
  show "max 2 (ln (1 / 2 :: real)) = 2" by (rule max_absorb1) (rule b(1))
  show "max 4 (ln (1 / 2 :: real)) = 4" by (rule max_absorb1) (rule b(2))
qed

lemma ex_HSR_predict:
  "HSR_predict 2 [0, 1, 2, 0] [0, 2, 4, ln 7] = Inr ([1, 1, 1, 7], [1, exp 2, exp 4, 1])"
  by (simp add: HSR_predict_def ln_half_le)

lemma ex_run_HSR: "run_HSR ref_lib ex_wmat ex_mask [''control'', ''A''] 1 = Inr ex_hsr"
  by (simp add: run_HSR_def HSR_condition_def df_index_def ex_HSR_fit[unfolded ex_index_def]
      ex_HSR_predict df_column_def ex_wmat_def col_pos_def log_transform_def np_log_def
      set_column_def ex_hsr_def)

theorem run_HSR_floor_witness:
  "(0::real) < 1 \<and> run_HSR ref_lib ex_wmat ex_mask [''control'', ''A''] 1 = Inr ex_hsr \<and>
   log_transform 1 [1, exp 1, exp 2, 0]
     = Inr (map (\<lambda>v. ln (max 1 v)) [1, exp 1, exp 2, 0]) \<and>
   (\<exists>x track fit.
      df_column ex_wmat ''A'' = Inr x \<and>
      map_of ex_hsr (''A'' @ '' HSR Value'') = Some track \<and>
      map_of ex_hsr (''A'' @ '' fit'') = Some fit \<and>
      length track = length x \<and> length fit = length x \<and>
      (\<forall>b < length x. 1 / 2 \<le> fit ! b \<and> track ! b * fit ! b = max 1 (x ! b) \<and>
         track ! b = max 1 (x ! b) / fit ! b))"
proof -
  note T = run_HSR_floor[OF zero_less_one ex_run_HSR]
  from T have 1: "log_transform 1 [1, exp 1, exp 2, 0]
     = Inr (map (\<lambda>v. ln (max 1 v)) [1, exp 1, exp 2, 0])" by blast
  have "''A'' \<in> set (tl [''control'', ''A''])" by simp
  with T have 2: "\<exists>x track fit.
      df_column ex_wmat ''A'' = Inr x \<and>
      map_of ex_hsr (''A'' @ '' HSR Value'') = Some track \<and>
      map_of ex_hsr (''A'' @ '' fit'') = Some fit \<and>
      length track = length x \<and> length fit = length x \<and>
      (\<forall>b < length x. 1 / 2 \<le> fit ! b \<and> track ! b * fit ! b = max 1 (x ! b) \<and>
         track ! b = max 1 (x ! b) / fit ! b)" by blast
  from 1 2 ex_run_HSR show ?thesis by (intro conjI) simp_all
qed

section \<open>The signal of one replicate\<close>

lemma df_index_length: "length (df_index df) = length (df_rows df)"
  by (simp add: df_index_def)

lemma HSR_replicate_Inr:
  assumes "0 < eps"
    and "HSR_replicate lib replicates wmat mmat bl_mask eps ct tissue n i t = Inr (track, pred)"
    and "length tissue = length (df_rows wmat)"
  shows "\<exists>sample coef tt reg.
           df_column replicates t = Inr sample \<and> iloc mmat 0 (i + n) = Inr coef \<and>
           length sample = length tissue \<and>
           tt = map2 (\<lambda>s c. ln (max eps (s - coef * c))) sample tissue \<and>
           HSR_fit lib (df_index replicates) bl_mask ct tt = Inr reg \<and>
           HSR_predict reg ct tt = Inr (track, pred) \<and>
           length track = length tissue \<and> length pred = length tissue \<and>
           (\<forall>b < length tissue. 1 / 2 \<le> pred ! b \<and>
              track ! b * pred ! b = max eps (sample ! b - coef * tissue ! b))"
proof -
  from assms(2) obtain sample coef tt reg where s: "df_column replicates t = Inr sample"
    and c: "iloc mmat 0 (i + n) = Inr coef"
    and al: "df_index replicates = df_index wmat"
    and tt: "np_log (sample_specific_signal eps sample coef tissue) = Inr tt"
    and f: "HSR_fit lib (df_index replicates) bl_mask ct tt = Inr reg"
    and p: "HSR_predict reg ct tt = Inr (track, pred)"
    unfolding HSR_replicate_def by (auto simp: bind_err_Inr split: if_splits)
  have "length (df_rows replicates) = length (df_rows wmat)"
    using al df_index_length[of replicates] df_index_length[of wmat] by simp
  then have len: "length sample = length tissue"
    using df_column_length[OF s] assms(3) by simp
  from tt assms(1) have "tt = map ln (sample_specific_signal eps sample coef tissue)"
    by (simp add: np_log_specific)
  then have tt': "tt = map2 (\<lambda>s c. ln (max eps (s - coef * c))) sample tissue"
    by (simp add: sample_specific_signal_def case_prod_beta comp_def)
  note P = HSR_predict_Inr[OF p]
  have lt: "length tt = length tissue" using tt' len by simp
  have "1 / 2 \<le> pred ! b \<and> track ! b * pred ! b = max eps (sample ! b - coef * tissue ! b)"
    if b: "b < length tissue" for b
  proof -
    have "0 < max eps (sample ! b - coef * tissue ! b)"
      using assms(1) by (simp add: less_max_iff_disj)
    then have "exp (tt ! b) = max eps (sample ! b - coef * tissue ! b)"
      using b tt' len by simp
    with P(1,4) b lt show ?thesis by simp
  qed
  with s c len tt' f p P(1,2,3) lt show ?thesis by simp
qed

text \<open>
  Claim C7. In every table \<open>run_HSR_replicates\<close> returns (with a positive \<open>eps\<close>, on
  replicates with distinct column labels), the \<open>i\<close>-th treatment column has its two
  columns; the series fed into its regression is the logarithm of its coverage minus
  the control signal times the entry of row 0 of the mixing matrix at position \<open>i\<close> plus
  the number of control samples, floored at \<open>eps\<close>; and its normalized value times its
  fitted baseline gives that floored difference back.
\<close>

theorem run_HSR_replicates_signal:
  assumes "0 < eps" and "distinct (df_columns replicates)"
    and "run_HSR_replicates lib replicates wmat mmat bl_mask conditions_list
           conditions_counts_ref eps = Inr out"
  shows "\<exists>control rest n_control tissue ct.
           conditions_list = control # rest \<and>
           conditions_counts_ref control = Some n_control \<and>
           df_column wmat control = Inr tissue \<and> log_transform eps tissue = Inr ct \<and>
           (\<forall>i < length (filter (\<lambda>c. \<not> startswith c control) (df_columns replicates)).
              \<exists>sample coef tt reg track fit.
                df_column replicates
                  (filter (\<lambda>c. \<not> startswith c control) (df_columns replicates) ! i)
                  = Inr sample \<and>
                iloc mmat 0 (i + n_control) = Inr coef \<and>
                coef = snd (df_rows mmat ! 0) ! (i + n_control) \<and>
                length sample = length tissue \<and>
                tt = map2 (\<lambda>s c. ln (max eps (s - coef * c))) sample tissue \<and>
                HSR_fit lib (df_index replicates) bl_mask ct tt = Inr reg \<and>
                HSR_predict reg ct tt = Inr (track, fit) \<and>
                map_of out (filter (\<lambda>c. \<not> startswith c control) (df_columns replicates) ! i
                            @ '' HSR Value'') = Some track \<and>
                map_of out (filter (\<lambda>c. \<not> startswith c control) (df_columns replicates) ! i
                            @ '' fit'') = Some fit \<and>
                (\<forall>b < length tissue.
                   track ! b * fit ! b = max eps (sample ! b - coef * tissue ! b)))"
proof -
  from assms(3) obtain control rest n_control tissue ct where
    cl: "conditions_list = control # rest" and
    n: "conditions_counts_ref control = Some n_control" and
    ti: "df_column wmat control = Inr tissue" and
    ct: "log_transform eps tissue = Inr ct" and
    l: "HSR_replicates_loop lib replicates wmat mmat bl_mask eps ct tissue n_control 0
          (filter (\<lambda>c. \<not> startswith c control) (df_columns replicates)) [] = Inr out"
    unfolding run_HSR_replicates_def
    by (auto simp: bind_err_Inr split: list.splits option.splits)
  define ts where "ts = filter (\<lambda>c. \<not> startswith c control) (df_columns replicates)"
  have dts: "distinct ts" using assms(2) by (simp add: ts_def)
  from HSR_replicates_loop_writes[OF l[folded ts_def]] obtain rs where rs: "length rs = length ts"
    "\<forall>k < length ts. HSR_replicate lib replicates wmat mmat bl_mask eps ct tissue n_control
                        (0 + k) (ts ! k) = Inr (rs ! k)"
    "out = write_columns (zip ts rs) []" by blast
  have tl: "length tissue = length (df_rows wmat)" by (rule df_column_length[OF ti])
  have "\<exists>sample coef tt reg track fit.
          df_column replicates (ts ! i) = Inr sample \<and>
          iloc mmat 0 (i + n_control) = Inr coef \<and>
          coef = snd (df_rows mmat ! 0) ! (i + n_control) \<and>
          length sample = length tissue \<and>
          tt = map2 (\<lambda>s c. ln (max eps (s - coef * c))) sample tissue \<and>
          HSR_fit lib (df_index replicates) bl_mask ct tt = Inr reg \<and>
          HSR_predict reg ct tt = Inr (track, fit) \<and>
          map_of out (ts ! i @ '' HSR Value'') = Some track \<and>
          map_of out (ts ! i @ '' fit'') = Some fit \<and>
          (\<forall>b < length tissue. track ! b * fit ! b = max eps (sample ! b - coef * tissue ! b))"
    if i: "i < length ts" for i
  proof -
    from i rs(1) have "ts ! i \<in> fst ` set (zip ts rs)"
      by (metis map_fst_zip nth_mem set_map)
    from write_columns_both[OF this, of "[]"] obtain track pred where
      m: "(ts ! i, track, pred) \<in> set (zip ts rs)"
      "map_of out (ts ! i @ '' HSR Value'') = Some track"
      "map_of out (ts ! i @ '' fit'') = Some pred"
      using rs(3) by auto
    from m(1) obtain k where k: "k < length ts" "ts ! k = ts ! i" "rs ! k = (track, pred)"
      by (auto simp: in_set_zip)
    with dts i have "k = i" by (simp add: nth_eq_iff_index_eq)
    with k rs(2) i have
      "HSR_replicate lib replicates wmat mmat bl_mask eps ct tissue n_control i (ts ! i)
         = Inr (track, pred)" by simp
    from HSR_replicate_Inr[OF assms(1) this tl] obtain sample coef tt reg where
      r: "df_column replicates (ts ! i) = Inr sample" "iloc mmat 0 (i + n_control) = Inr coef"
      "length sample = length tissue"
      "tt = map2 (\<lambda>s c. ln (max eps (s - coef * c))) sample tissue"
      "HSR_fit lib (df_index replicates) bl_mask ct tt = Inr reg"
      "HSR_predict reg ct tt = Inr (track, pred)"
      "\<forall>b < length tissue. 1 / 2 \<le> pred ! b \<and>
              track ! b * pred ! b = max eps (sample ! b - coef * tissue ! b)"
      by blast
    from r(2) have "coef = snd (df_rows mmat ! 0) ! (i + n_control)"
      by (simp add: iloc_def split: if_splits)
    with r m(2,3) show ?thesis by blast
  qed
  with cl n ti ct show ?thesis unfolding ts_def by blast
qed

lemma ex_replicate_signal:
  "sample_specific_signal 1 [2, exp 1 + exp 2, exp 2 + exp 4, 7] 1 [1, exp 1, exp 2, 0]
     = [1, exp 2, exp 4, 7]"
  by (simp add: sample_specific_signal_def max_def)

lemma ex_run_HSR_replicates:
  "run_HSR_replicates ref_lib ex_replicates ex_wmat ex_mmat ex_mask [''control'', ''A'']
     [''control'' \<mapsto> 1] 1 = Inr ex_hsr_replicates"
  by (simp add: run_HSR_replicates_def HSR_replicate_def df_index_def
      ex_HSR_fit[unfolded ex_index_def] ex_HSR_predict df_column_def ex_wmat_def
      ex_replicates_def ex_mmat_def col_pos_def log_transform_def np_log_def set_column_def
      ex_hsr_replicates_def iloc_def startswith_def ex_replicate_signal)

theorem run_HSR_replicates_signal_witness:
  "(0::real) < 1 \<and> distinct (df_columns ex_replicates) \<and>
   run_HSR_replicates ref_lib ex_replicates ex_wmat ex_mmat ex_mask [''control'', ''A'']
     [''control'' \<mapsto> 1] 1 = Inr ex_hsr_replicates \<and>
   (\<exists>control rest n_control tissue ct.
      [''control'', ''A''] = control # rest \<and>
      [''control'' \<mapsto> 1::nat] control = Some n_control \<and>
      df_column ex_wmat control = Inr tissue \<and> log_transform 1 tissue = Inr ct \<and>
      (\<forall>i < length (filter (\<lambda>c. \<not> startswith c control) (df_columns ex_replicates)).
         \<exists>sample coef tt reg track fit.
           df_column ex_replicates
             (filter (\<lambda>c. \<not> startswith c control) (df_columns ex_replicates) ! i)
             = Inr sample \<and>
           iloc ex_mmat 0 (i + n_control) = Inr coef \<and>
           coef = snd (df_rows ex_mmat ! 0) ! (i + n_control) \<and>
           length sample = length tissue \<and>
           tt = map2 (\<lambda>s c. ln (max 1 (s - coef * c))) sample tissue \<and>
           HSR_fit ref_lib (df_index ex_replicates) ex_mask ct tt = Inr reg \<and>
           HSR_predict reg ct tt = Inr (track, fit) \<and>
           map_of ex_hsr_replicates
             (filter (\<lambda>c. \<not> startswith c control) (df_columns ex_replicates) ! i
              @ '' HSR Value'') = Some track \<and>
           map_of ex_hsr_replicates
             (filter (\<lambda>c. \<not> startswith c control) (df_columns ex_replicates) ! i
              @ '' fit'') = Some fit \<and>
           (\<forall>b < length tissue.
              track ! b * fit ! b = max 1 (sample ! b - coef * tissue ! b))))"
proof -
  have d: "distinct (df_columns ex_replicates)" by (simp add: ex_replicates_def)
  from run_HSR_replicates_signal[OF zero_less_one d ex_run_HSR_replicates] d
    ex_run_HSR_replicates
  show ?thesis by (intro conjI) simp_all
qed

section \<open>No negative entries\<close>

lemma nonneg_iff: "nonneg A \<longleftrightarrow> (\<forall>r \<in> set A. \<forall>v \<in> set r. 0 \<le> v)"
  by (simp add: nonneg_def list_all_iff)

lemma nonneg_concat: "nonneg A \<longleftrightarrow> (\<forall>v \<in> set (concat A). 0 \<le> v)"
  by (auto simp: nonneg_iff)

lemma transpose_single: "transpose [xs] = map (\<lambda>x. [x]) xs"
  by (induction xs) simp_all

lemma set_concat_transpose:
  assumes "v \<in> set (concat (transpose xss))"
  shows "v \<in> set (concat xss)"
proof -
  from assms obtain row where row: "row \<in> set (transpose xss)" "v \<in> set row" by auto
  then obtain i where i: "i < length (transpose xss)" "row = transpose xss ! i"
    by (auto simp: in_set_conv_nth)
  from nth_transpose[OF i(1)] i(2) row(2)
  obtain ys where ys: "ys \<in> set xss" "i < length ys" "v = ys ! i" by auto
  then have "v \<in> set ys" by simp
  with ys(1) show ?thesis by auto
qed

lemma assign_slice_nonneg:
  assumes "assign_slice M r a b V = Inr M'" "nonneg M" "nonneg V"
  shows "nonneg M'"
proof -
  from assms(1) have r: "r < length M"
    unfolding assign_slice_def by (simp split: if_splits)
  from assms(1) r obtain v where V: "V = [v]"
    unfolding assign_slice_def Let_def
    by (cases V; cases "tl V") (simp_all split: if_splits)
  from assms(3) V have v: "\<forall>x \<in> set v. 0 \<le> x" by (simp add: nonneg_iff)
  have row: "\<forall>x \<in> set (M ! r). 0 \<le> x" using assms(2) r by (auto simp: nonneg_iff)
  define lo where "lo = min a (length (M ! r))"
  define hi where "hi = max lo (min b (length (M ! r)))"
  obtain w where M': "M' = M[r := take lo (M ! r) @ w @ drop hi (M ! r)]"
    and w: "set w \<subseteq> set v"
  proof (cases "length v = hi - lo")
    case True
    with assms(1) r V have "M' = M[r := take lo (M ! r) @ v @ drop hi (M ! r)]"
      unfolding assign_slice_def Let_def lo_def hi_def by simp
    then show ?thesis by (intro that[of v]) simp_all
  next
    case False
    with assms(1) r V have l1: "length v = 1"
      unfolding assign_slice_def Let_def lo_def hi_def by (simp split: if_splits)
    then have "hd v \<in> set v" by (cases v) simp_all
    then have sub: "set (replicate (hi - lo) (hd v)) \<subseteq> set v" by auto
    from False assms(1) r V l1
    have "M' = M[r := take lo (M ! r) @ replicate (hi - lo) (hd v) @ drop hi (M ! r)]"
      unfolding assign_slice_def Let_def lo_def hi_def by (simp split: if_splits)
    with sub show ?thesis by (intro that[of "replicate (hi - lo) (hd v)"])
  qed
  have "\<forall>x \<in> set (take lo (M ! r) @ w @ drop hi (M ! r)). 0 \<le> x"
    using row v w by (auto dest: in_set_takeD in_set_dropD)
  with assms(2) show ?thesis
    unfolding M' nonneg_iff by (auto dest!: set_update_subset_insert[THEN subsetD])
qed

lemma specific_loop_nonneg:
  assumes "nonneg_factors lib"
    and "specific_loop lib aW aH sdm cs i ix M g = Inr (M', g')" and "nonneg M"
  shows "nonneg M'"
  using assms(2,3)
proof (induction cs arbitrary: i ix M g)
  case Nil
  then show ?case by simp
next
  case (Cons c cs)
  from Cons.prems(1) obtain W H g1 M1 where
    f: "non_negative_factorization lib g
          ((nnf_call (map (\<lambda>r. take c (drop ix r)) sdm) 1)
             \<lparr>kw_beta_loss := LossBeta 1, kw_solver := ''mu'',
              kw_alpha_W := aW, kw_alpha_H := Some aH\<rparr>) = Inr (W, H, g1)" and
    a: "assign_slice M (i + 1) ix (ix + c) H = Inr M1" and
    l: "specific_loop lib aW aH sdm cs (i + 1) (ix + c) M1 g1 = Inr (M', g')"
    by (auto simp: bind_err_Inr)
  from assms(1) f have "nonneg H" unfolding nonneg_factors_def by blast
  from assign_slice_nonneg[OF a Cons.prems(2) this] have "nonneg M1" .
  from Cons.IH[OF l this] show ?case .
qed

lemma nonneg_zeros: "nonneg (np_zeros R T)"
  by (simp add: nonneg_iff np_zeros_def)

lemma unspecific_coefs_nonneg:
  assumes "nonneg_factors lib"
    and "unspecific_coefs lib g data_df train cl aW aH = Inr (W, Hc, g1)"
  shows "\<forall>v \<in> set Hc. 0 \<le> v"
proof -
  from assms(2) obtain args1 H_unspec args2 W_treat H_treat where
    n: "NMF_fit_transform lib args1 = Inr (W, H_unspec)" and
    f: "non_negative_factorization lib g args2 = Inr (W_treat, H_treat, g1)" and
    hc: "Hc = concat H_unspec @ concat (transpose W_treat)"
    unfolding unspecific_coefs_def Let_def by (auto simp: bind_err_Inr)
  from assms(1) n f have "nonneg H_unspec" "nonneg W_treat"
    unfolding nonneg_factors_def by blast+
  then have "\<forall>v \<in> set (concat H_unspec). 0 \<le> v" "\<forall>v \<in> set (concat W_treat). 0 \<le> v"
    by (simp_all add: nonneg_concat)
  then show ?thesis
    unfolding hc using set_concat_transpose[of _ W_treat] by (metis Un_iff set_append)
qed

lemma extract_mixing_matrix_nonneg:
  assumes "nonneg_factors lib"
    and "extract_mixing_matrix lib g data_df cl counts aW aH thr n seed = Inr (mm, g')"
  shows "nonneg (df_values mm)"
proof -
  from assms(2) obtain train_data W_unspec H_unspec_coefs g1 sdm n_control cs M0 M' where
    u: "unspecific_coefs lib g data_df train_data cl aW aH = Inr (W_unspec, H_unspec_coefs, g1)" and
    m0: "assign_row (np_zeros (length cl) (sum_list (n_control # cs))) 0 H_unspec_coefs = Inr M0" and
    lp: "specific_loop lib aW aH sdm cs 0 n_control M0 g1 = Inr (M', g')" and
    df: "DataFrame M' (''unspecific'' # drop 1 cl) (df_columns train_data) = Inr mm"
    by (rule extract_mixing_matrix_stages)
  have "nonneg [H_unspec_coefs]"
    using unspecific_coefs_nonneg[OF assms(1) u] by (simp add: nonneg_iff)
  from assign_slice_nonneg[OF m0[unfolded assign_row_def] nonneg_zeros this]
  have "nonneg M0" .
  from specific_loop_nonneg[OF assms(1) lp this] DataFrame_Inr(2)[OF df]
  show ?thesis by simp
qed

lemma signal_loop_nonneg:
  assumes "nonneg_factors lib"
    and "signal_loop lib mv aW seed cks acc g = Inr (blocks, g')"
    and "\<forall>b \<in> set acc. nonneg b"
  shows "\<forall>b \<in> set blocks. nonneg b"
  using assms(2,3)
proof (induction cks arbitrary: acc g)
  case Nil
  then show ?case by simp
next
  case (Cons ck cks)
  show ?case
  proof (cases "length ck < 1")
    case True
    with Cons.prems show ?thesis by simp
  next
    case False
    obtain W g1 where u: "random_uniform lib g 0 0.1 (length ck, length mv) = (W, g1)"
      by (cases "random_uniform lib g 0 0.1 (length ck, length mv)")
    from Cons.prems(1) False u obtain ck_W H g2 where
      f: "non_negative_factorization lib g1 (signal_args mv aW seed ck W) = Inr (ck_W, H, g2)" and
      l: "signal_loop lib mv aW seed cks (acc @ [ck_W]) g2 = Inr (blocks, g')"
      by (auto simp: bind_err_Inr)
    from assms(1) f have "nonneg ck_W" unfolding nonneg_factors_def by blast
    with Cons.prems(2) have "\<forall>b \<in> set (acc @ [ck_W]). nonneg b" by simp
    from Cons.IH[OF l this] show ?thesis .
  qed
qed

lemma extract_signal_nonneg:
  assumes "nonneg_factors lib"
    and "extract_signal lib g data_df mmatrix cl chunk aW seed = Inr (wm, g')"
  shows "nonneg (df_values wm)"
proof -
  from assms(2) obtain indices blocks vals where
    l: "signal_loop lib (df_values mmatrix) aW seed (np_split (df_values data_df) indices) [] g
          = Inr (blocks, g')" and
    v: "np_vstack blocks = Inr vals" and
    d: "DataFrame vals (df_index data_df) cl = Inr wm"
    unfolding extract_signal_def by (auto simp: bind_err_Inr)
  from signal_loop_nonneg[OF assms(1) l] have "\<forall>b \<in> set blocks. nonneg b" by simp
  moreover from v have "vals = concat blocks" by (simp add: np_vstack_def split: if_splits)
  ultimately have "nonneg vals" by (auto simp: nonneg_iff)
  with DataFrame_Inr(2)[OF d] show ?thesis by simp
qed

lemma specific_data_mat_Inr:
  assumes "specific_data_mat tv W Hc = Inr sdm"
  shows "nonneg sdm" and "length sdm = length tv"
    and "\<forall>r < length tv. length (sdm ! r) = length (tv ! r) \<and>
           (\<forall>j < length (tv ! r). sdm ! r ! j = max (tv ! r ! j - hd (W ! r) * Hc ! j) 0)"
proof -
  from assms obtain u d where u: "np_dot W [Hc] = Inr u" and d: "np_subtract tv u = Inr d"
    and s: "sdm = np_maximum d 0"
    unfolding specific_data_mat_def by (auto simp: bind_err_Inr)
  show "nonneg sdm" unfolding s by (simp add: nonneg_iff np_maximum_def)
  from u have W1: "\<forall>r \<in> set W. length r = 1"
    and u': "u = map (\<lambda>r. map (\<lambda>col. sum_list (map2 (*) r col)) (map (\<lambda>h. [h]) Hc)) W"
    by (auto simp: np_dot_def transpose_single list_all_iff split: if_splits)
  from d have sh: "length tv = length u" "list_all2 (\<lambda>a b. length a = length b) tv u"
    and d': "d = map2 (\<lambda>a b. map2 (-) a b) tv u"
    by (auto simp: np_subtract_def same_shape_def split: if_splits)
  show "length sdm = length tv" using s d' sh by (simp add: np_maximum_def)
  show "\<forall>r < length tv. length (sdm ! r) = length (tv ! r) \<and>
           (\<forall>j < length (tv ! r). sdm ! r ! j = max (tv ! r ! j - hd (W ! r) * Hc ! j) 0)"
  proof (intro allI impI)
    fix r assume r: "r < length tv"
    then have rW: "r < length W" using sh(1) u' by simp
    then obtain w where w: "W ! r = [w]"
      using W1 by (metis One_nat_def Suc_length_conv length_0_conv nth_mem)
    have ur: "u ! r = map (\<lambda>h. w * h) Hc" using rW w u' by simp
    have lr: "length (tv ! r) = length (u ! r)" by (rule list_all2_nthD[OF sh(2) r])
    have dr: "d ! r = map2 (-) (tv ! r) (u ! r)" using d' r sh(1) by simp
    have sr: "sdm ! r = map (\<lambda>v. max v 0) (d ! r)"
      using s d' r sh(1) by (simp add: np_maximum_def)
    show "length (sdm ! r) = length (tv ! r) \<and>
           (\<forall>j < length (tv ! r). sdm ! r ! j = max (tv ! r ! j - hd (W ! r) * Hc ! j) 0)"
      using sr dr lr ur w by simp
  qed
qed

lemma HSR_predict_positive:
  assumes "HSR_predict reg ct tt = Inr (track, pred)"
  shows "\<forall>v \<in> set track. 0 < v" "\<forall>v \<in> set pred. 0 < v"
  using assms by (auto simp: HSR_predict_def Let_def split: if_splits)

lemma HSR_condition_positive:
  assumes "HSR_condition lib wmat bl_mask eps ct t = Inr r"
  shows "(\<forall>v \<in> set (fst r). 0 < v) \<and> (\<forall>v \<in> set (snd r). 0 < v)"
proof -
  from assms obtain reg tt where "HSR_predict reg ct tt = Inr (fst r, snd r)"
    unfolding HSR_condition_def by (auto simp: bind_err_Inr)
  from HSR_predict_positive[OF this] show ?thesis by simp
qed

lemma HSR_replicate_positive:
  assumes "HSR_replicate lib replicates wmat mmat bl_mask eps ct tissue n i t = Inr r"
  shows "(\<forall>v \<in> set (fst r). 0 < v) \<and> (\<forall>v \<in> set (snd r). 0 < v)"
proof -
  from assms obtain reg tt where "HSR_predict reg ct tt = Inr (fst r, snd r)"
    unfolding HSR_replicate_def by (auto simp: bind_err_Inr split: if_splits)
  from HSR_predict_positive[OF this] show ?thesis by simp
qed

lemma written_positive:
  assumes "length rs = length ts"
    and "\<forall>k < length ts. (\<forall>v \<in> set (fst (rs ! k)). 0 < v) \<and> (\<forall>v \<in> set (snd (rs ! k)). 0 < v)"
  shows "\<forall>nc \<in> set (write_columns (zip ts rs) []). \<forall>v \<in> set (snd nc). (0::real) < v"
proof (intro ballI)
  fix nc v assume nc: "nc \<in> set (write_columns (zip ts rs) [])" and v: "v \<in> set (snd nc)"
  from nc have "(fst nc, snd nc) \<in> set (write_columns (zip ts rs) [])" by simp
  from write_columns_set[OF this] obtain p where p: "p \<in> set (zip ts rs)"
    "snd nc = fst (snd p) \<or> snd nc = snd (snd p)" by auto
  from p(1) obtain k where "k < length ts" "snd p = rs ! k"
    using assms(1) by (auto simp: in_set_zip)
  with assms(2) p(2) v show "0 < v" by auto
qed

lemma run_HSR_positive:
  assumes "run_HSR lib wmat bl_mask cl eps = Inr out"
  shows "\<forall>nc \<in> set out. \<forall>v \<in> set (snd nc). 0 < v"
proof -
  from assms obtain ts ct where l: "HSR_loop lib wmat bl_mask eps ct ts [] = Inr out"
    unfolding run_HSR_def by (auto simp: bind_err_Inr split: list.splits)
  from HSR_loop_writes[OF l] obtain rs where rs: "length rs = length ts"
    "\<forall>k < length ts. HSR_condition lib wmat bl_mask eps ct (ts ! k) = Inr (rs ! k)"
    "out = write_columns (zip ts rs) []" by blast
  from rs(2) have "\<forall>k < length ts. (\<forall>v \<in> set (fst (rs ! k)). 0 < v) \<and>
                     (\<forall>v \<in> set (snd (rs ! k)). 0 < v)"
    using HSR_condition_positive by blast
  from written_positive[OF rs(1) this] rs(3) show ?thesis by simp
qed

lemma run_HSR_replicates_positive:
  assumes "run_HSR_replicates lib replicates wmat mmat bl_mask cl counts eps = Inr out"
  shows "\<forall>nc \<in> set out. \<forall>v \<in> set (snd nc). 0 < v"
proof -
  from assms obtain ts ct tissue n where
    l: "HSR_replicates_loop lib replicates wmat mmat bl_mask eps ct tissue n 0 ts [] = Inr out"
    unfolding run_HSR_replicates_def
    by (auto simp: bind_err_Inr split: list.splits option.splits)
  from HSR_replicates_loop_writes[OF l] obtain rs where rs: "length rs = length ts"
    "\<forall>k < length ts. HSR_replicate lib replicates wmat mmat bl_mask eps ct tissue n (0 + k)
                        (ts ! k) = Inr (rs ! k)"
    "out = write_columns (zip ts rs) []" by blast
  from rs(2) have "\<forall>k < length ts. (\<forall>v \<in> set (fst (rs ! k)). 0 < v) \<and>
                     (\<forall>v \<in> set (snd (rs ! k)). 0 < v)"
    using HSR_replicate_positive by blast
  from written_positive[OF rs(1) this] rs(3) show ?thesis by simp
qed

text \<open>
  Claim C6. No stage puts out a negative number. The residual is the training matrix
  minus the product of the unspecific signal and its coefficient row, entry by entry,
  cut off at zero. Given factorizations that return no negative entry, the mixing matrix
  and the signal matrix hold none. Every entry of the tables of \<open>run_HSR\<close> and
  \<open>run_HSR_replicates\<close>, track or fitted baseline, is an exponential, hence positive.
\<close>

theorem outputs_nonnegative:
  "(specific_data_mat train_values W_unspec H_unspec_coefs = Inr sdm \<longrightarrow>
      nonneg sdm \<and> length sdm = length train_values \<and>
      (\<forall>r < length train_values. length (sdm ! r) = length (train_values ! r) \<and>
         (\<forall>j < length (train_values ! r).
            sdm ! r ! j = max (train_values ! r ! j - hd (W_unspec ! r) * H_unspec_coefs ! j) 0))) \<and>
   (nonneg_factors lib \<and>
    extract_mixing_matrix lib g data_df conditions_list conditions_counts_ref alpha_W alpha_H
      control_cov_threshold n_train_bins seed = Inr (mm, g1)
      \<longrightarrow> nonneg (df_values mm)) \<and>
   (nonneg_factors lib \<and>
    extract_signal lib g1 data_df mm conditions_list chunk_size alpha_W seed = Inr (wmat, g2)
      \<longrightarrow> nonneg (df_values wmat)) \<and>
   (run_HSR lib signal bl_mask conditions_list eps = Inr out
      \<longrightarrow> (\<forall>nc \<in> set out. \<forall>v \<in> set (snd nc). 0 < v)) \<and>
   (run_HSR_replicates lib replicates signal mm bl_mask conditions_list conditions_counts_ref
      eps = Inr out'
      \<longrightarrow> (\<forall>nc \<in> set out'. \<forall>v \<in> set (snd nc). 0 < v))"
  using specific_data_mat_Inr[of train_values W_unspec H_unspec_coefs sdm]
    extract_mixing_matrix_nonneg[of lib g data_df conditions_list conditions_counts_ref
      alpha_W alpha_H control_cov_threshold n_train_bins seed mm g1]
    extract_signal_nonneg[of lib g1 data_df mm conditions_list chunk_size alpha_W seed wmat g2]
    run_HSR_positive[of lib signal bl_mask conditions_list eps out]
    run_HSR_replicates_positive[of lib replicates signal mm bl_mask conditions_list
      conditions_counts_ref eps out']
  by blast

lemma nonneg_factors_ref_lib: "nonneg_factors ref_lib"
proof -
  have W: "nonneg (ref_W args)" if "ref_accepts args" for args
  proof -
    from that have "\<forall>r \<in> set (kw_X args). \<forall>v \<in> set r. 0 \<le> v"
      by (simp add: ref_accepts_def nonneg_iff)
    then have "\<forall>r \<in> set (kw_X args). 0 \<le> sum_list r / real (length r)"
      by (simp add: sum_list_nonneg)
    then show ?thesis by (auto simp: ref_W_def nonneg_iff)
  qed
  have H: "nonneg (ref_H args)" if "ref_accepts args" for args
    using that by (auto simp: ref_accepts_def ref_H_def nonneg_iff split: option.splits)
  show ?thesis
    unfolding nonneg_factors_def ref_lib_def using W H by (auto split: if_splits)
qed

lemma ex_residual:
  "specific_data_mat (df_values ex_train) [[1], [1]] [1, 1, 1, 1]
     = Inr [[1, 0, 2, 3], [2, 4, 0, 0]]"
  by code_simp

lemma ex_signal_run:
  "extract_signal ref_lib 0 ex_data ex_mm ex_conditions 2 0.01 42 = Inr (ex_signal, 2)"
  by code_simp

theorem outputs_nonnegative_witness:
  "(specific_data_mat (df_values ex_train) [[1], [1]] [1, 1, 1, 1]
      = Inr [[1, 0, 2, 3], [2, 4, 0, 0]] \<and>
    nonneg [[1, 0, 2, 3], [2, 4, 0, 0]]) \<and>
   (nonneg_factors ref_lib \<and>
    extract_mixing_matrix ref_lib 0 ex_data ex_conditions ex_counts 0.01 0.001 1 2 42
      = Inr (ex_mm, 0) \<and>
    nonneg (df_values ex_mm)) \<and>
   (extract_signal ref_lib 0 ex_data ex_mm ex_conditions 2 0.01 42 = Inr (ex_signal, 2) \<and>
    nonneg (df_values ex_signal)) \<and>
   (run_HSR ref_lib ex_wmat ex_mask [''control'', ''A''] 1 = Inr ex_hsr \<and>
    list_all (\<lambda>nc. list_all (\<lambda>v. 0 < v) (snd nc)) ex_hsr) \<and>
   (run_HSR_replicates ref_lib ex_replicates ex_wmat ex_mmat ex_mask [''control'', ''A'']
      [''control'' \<mapsto> 1] 1 = Inr ex_hsr_replicates \<and>
    list_all (\<lambda>nc. list_all (\<lambda>v. 0 < v) (snd nc)) ex_hsr_replicates)"
proof -
  note T = outputs_nonnegative[where lib = ref_lib and eps = 1 and bl_mask = ex_mask]
  from T[where train_values = "df_values ex_train" and W_unspec = "[[1], [1]]"
      and H_unspec_coefs = "[1, 1, 1, 1]" and sdm = "[[1, 0, 2, 3], [2, 4, 0, 0]]"] ex_residual
  have 1: "nonneg [[1, 0, 2, 3], [2, 4, 0, 0]]" by blast
  from T[where g = 0 and data_df = ex_data and conditions_list = ex_conditions
      and conditions_counts_ref = ex_counts and alpha_W = "0.01" and alpha_H = "0.001"
      and control_cov_threshold = 1 and n_train_bins = 2 and seed = 42 and mm = ex_mm
      and ?g1.0 = 0 and chunk_size = 2 and wmat = ex_signal and ?g2.0 = 2]
    nonneg_factors_ref_lib ex_mm_run ex_signal_run
  have 2: "nonneg (df_values ex_mm)" "nonneg (df_values ex_signal)" by blast+
  from T[where signal = ex_wmat and conditions_list = "[''control'', ''A'']" and out = ex_hsr
      and replicates = ex_replicates and mm = ex_mmat
      and conditions_counts_ref = "[''control'' \<mapsto> 1]" and out' = ex_hsr_replicates]
    ex_run_HSR ex_run_HSR_replicates
  have 3: "list_all (\<lambda>nc. list_all (\<lambda>v. 0 < v) (snd nc)) ex_hsr"
    "list_all (\<lambda>nc. list_all (\<lambda>v. 0 < v) (snd nc)) ex_hsr_replicates"
    unfolding list_all_iff by blast+
  from 1 2 3 nonneg_factors_ref_lib ex_residual ex_mm_run ex_signal_run ex_run_HSR
    ex_run_HSR_replicates
  show ?thesis by blast
qed

section \<open>The rows of the signal matrix\<close>

lemma py_range_chunks:
  assumes "0 < k"
  shows "py_range (int k) (int n + int k) (int k)
           = Inr (map (\<lambda>i. int (Suc i * k)) [0..<(n + k - 1) div k])"
proof -
  have "(int n + int k - int k + int k - 1) div int k = int ((n + k - 1) div k)"
    using assms by (simp add: zdiv_int of_nat_diff)
  then have "nat ((int n + int k - int k + int k - 1) div int k) = (n + k - 1) div k"
    by simp
  then show ?thesis using assms by (simp add: py_range_def algebra_simps)
qed

lemma nat_int_diff: "nat (int x - int y) = x - y"
  by arith

lemma py_slice_nat:
  "py_slice xs (int a) (int b)
     = take (min b (length xs) - min a (length xs)) (drop (min a (length xs)) xs)"
proof -
  have "min (int a) (int (length xs)) = int (min a (length xs))"
    "min (int b) (int (length xs)) = int (min b (length xs))" by simp_all
  then show ?thesis
    unfolding py_slice_def Let_def by (simp only: of_nat_less_0_iff if_False nat_int_diff nat_int)
qed

lemma chunk_count:
  assumes "0 < k"
  shows "length xs \<le> ((length xs + k - 1) div k) * k"
    and "i < (length xs + k - 1) div k \<Longrightarrow> i * k < length xs"
proof -
  define m where "m = (length xs + k - 1) div k"
  have "length xs + k - 1 < (m + 1) * k"
    unfolding m_def using assms by (metis Suc_eq_plus1 dividend_less_div_times mult.commute
        add.commute mult_Suc)
  then show "length xs \<le> ((length xs + k - 1) div k) * k"
    unfolding m_def[symmetric] using assms by simp
  assume "i < (length xs + k - 1) div k"
  then have "Suc i \<le> m" by (simp add: m_def)
  then have "Suc i * k \<le> m * k" by (rule mult_le_mono1)
  also have "m * k \<le> length xs + k - 1" unfolding m_def by simp
  finally show "i * k < length xs" using assms by simp
qed

lemma concat_row_chunks_take:
  "concat (map (\<lambda>i. take k (drop (i * k) xs)) [0..<m]) = take (m * k) xs"
proof (induction m)
  case 0
  then show ?case by simp
next
  case (Suc m)
  have "take (m * k) xs @ take k (drop (m * k) xs) = take (m * k + k) xs"
    by (simp add: take_add)
  with Suc show ?case by (simp add: add.commute)
qed

lemma row_chunks_props:
  assumes "0 < k"
  shows "concat (row_chunks k xs) = xs"
    and "\<forall>ck \<in> set (row_chunks k xs). ck \<noteq> [] \<and> length ck \<le> k \<and> set ck \<subseteq> set xs"
    and "xs \<noteq> [] \<Longrightarrow> row_chunks k xs \<noteq> []"
proof -
  show "concat (row_chunks k xs) = xs"
    unfolding row_chunks_def concat_row_chunks_take using chunk_count(1)[OF assms, of xs] by simp
  show "\<forall>ck \<in> set (row_chunks k xs). ck \<noteq> [] \<and> length ck \<le> k \<and> set ck \<subseteq> set xs"
  proof
    fix ck assume "ck \<in> set (row_chunks k xs)"
    then obtain i where i: "i < (length xs + k - 1) div k" "ck = take k (drop (i * k) xs)"
      by (auto simp: row_chunks_def)
    from chunk_count(2)[OF assms i(1)] have "drop (i * k) xs \<noteq> []" by simp
    with assms i(2) have "ck \<noteq> []" by simp
    moreover have "set ck \<subseteq> set xs"
      unfolding i(2) by (meson set_drop_subset set_take_subset subset_trans)
    ultimately show "ck \<noteq> [] \<and> length ck \<le> k \<and> set ck \<subseteq> set xs" using i(2) by simp
  qed
  assume "xs \<noteq> []"
  then have "0 < length xs" by simp
  then have "k \<le> length xs + k - 1" by arith
  then have "0 < (length xs + k - 1) div k" using assms by (simp add: div_greater_zero_iff)
  then show "row_chunks k xs \<noteq> []" by (simp add: row_chunks_def)
qed

lemma map_upt_Suc': "map f [0..<Suc m] = f 0 # map (\<lambda>i. f (Suc i)) [0..<m]"
  by (simp only: map_upt_Suc)

lemma np_split_chunks:
  assumes "0 < k"
  shows "np_split xs (map (\<lambda>i. int (Suc i * k)) [0..<(length xs + k - 1) div k])
           = row_chunks k xs @ [[]]"
proof -
  define m where "m = (length xs + k - 1) div k"
  define lo where "lo = (\<lambda>i. int (i * k))"
  define hi where "hi = (\<lambda>i. if i < m then int (Suc i * k) else int (length xs))"
  have a: "0 # map (\<lambda>i. int (Suc i * k)) [0..<m] = map lo [0..<Suc m]"
    unfolding map_upt_Suc' lo_def by simp
  have b: "map (\<lambda>i. int (Suc i * k)) [0..<m] @ [int (length xs)] = map hi [0..<Suc m]"
    by (simp add: hi_def)
  have z: "zip (map lo [0..<Suc m]) (map hi [0..<Suc m]) = map (\<lambda>i. (lo i, hi i)) [0..<Suc m]"
    by (simp only: zip_map_map zip_same_conv_map map_map comp_def prod.case)
  have hm: "hi m = int (length xs)" by (simp add: hi_def)
  have last: "py_slice xs (lo m) (hi m) = []"
    unfolding hm lo_def py_slice_nat
    using chunk_count(1)[OF assms, of xs] by (simp add: m_def)
  have each: "py_slice xs (lo i) (hi i) = take k (drop (i * k) xs)" if "i < m" for i
  proof -
    from that have lt: "i * k < length xs" unfolding m_def by (rule chunk_count(2)[OF assms])
    have t: "take (min (Suc i * k) (length xs) - i * k) (drop (i * k) xs)
               = take k (drop (i * k) xs)"
      by (rule take_equalityI) (use lt in \<open>auto simp: min_def\<close>)
    have h: "hi i = int (Suc i * k)" using that by (simp add: hi_def)
    have m: "min (i * k) (length xs) = i * k" using lt by simp
    have "py_slice xs (lo i) (hi i)
            = take (min (Suc i * k) (length xs) - min (i * k) (length xs))
                (drop (min (i * k) (length xs)) xs)"
      unfolding h lo_def by (rule py_slice_nat)
    also have "\<dots> = take k (drop (i * k) xs)" unfolding m by (rule t)
    finally show ?thesis .
  qed
  have "np_split xs (map (\<lambda>i. int (Suc i * k)) [0..<m])
          = map (\<lambda>i. py_slice xs (lo i) (hi i)) [0..<Suc m]"
    unfolding np_split_def a b z by (simp add: comp_def)
  also have "\<dots> = map (\<lambda>i. py_slice xs (lo i) (hi i)) [0..<m] @ [py_slice xs (lo m) (hi m)]"
    by simp
  also have "map (\<lambda>i. py_slice xs (lo i) (hi i)) [0..<m] = row_chunks k xs"
    unfolding row_chunks_def m_def[symmetric] using each by simp
  finally show ?thesis using last by (simp add: m_def)
qed

lemma signal_args_fields:
  "kw_X (signal_args mv aW seed ck W) = ck"
  "kw_H (signal_args mv aW seed ck W) = Some mv"
  "kw_update_H (signal_args mv aW seed ck W) = False"
  "kw_init (signal_args mv aW seed ck W) = Some ''custom''"
  "kw_n_components (signal_args mv aW seed ck W) = length mv"
  by (simp_all add: signal_args_def nnf_call_def)

lemma factorizable_chunk:
  assumes "factorizable X H" "ck \<noteq> []" "set ck \<subseteq> set X"
  shows "factorizable ck H"
  using assms unfolding factorizable_def nonneg_iff by (meson subsetD)

lemma signal_loop_chunks:
  assumes "signal_solver_ok lib"
    and "\<forall>ck \<in> set cks. ck \<noteq> [] \<and> factorizable ck mv"
  shows "\<exists>blocks g'.
           signal_loop lib mv aW seed (cks @ [[]]) acc g = Inr (acc @ blocks, g') \<and>
           length blocks = length cks \<and>
           (\<forall>i < length cks.
              length (blocks ! i) = length (cks ! i) \<and>
              (\<forall>r \<in> set (blocks ! i). length r = length mv) \<and>
              (\<exists>g1 W0 H' g2. non_negative_factorization lib g1
                                (signal_args mv aW seed (cks ! i) W0) = Inr (blocks ! i, H', g2)))"
  using assms(2)
proof (induction cks arbitrary: acc g)
  case Nil
  then show ?case by simp
next
  case (Cons ck cks)
  from Cons.prems have ck: "ck \<noteq> []" "factorizable ck mv" by simp_all
  obtain W0 g1 where u: "random_uniform lib g 0 0.1 (length ck, length mv) = (W0, g1)"
    by (cases "random_uniform lib g 0 0.1 (length ck, length mv)")
  from assms(1) ck(2) obtain ck_W H' g2 where
    f: "non_negative_factorization lib g1 (signal_args mv aW seed ck W0) = Inr (ck_W, H', g2)" and
    s: "length ck_W = length ck" "\<forall>r \<in> set ck_W. length r = length mv"
    unfolding signal_solver_ok_def
    using signal_args_fields[of mv aW seed ck W0] by metis
  from Cons.prems have "\<forall>c \<in> set cks. c \<noteq> [] \<and> factorizable c mv" by simp
  from Cons.IH[OF this, of "acc @ [ck_W]" g2] obtain blocks g' where
    l: "signal_loop lib mv aW seed (cks @ [[]]) (acc @ [ck_W]) g2
          = Inr ((acc @ [ck_W]) @ blocks, g')" and
    n: "length blocks = length cks" and
    b: "\<forall>i < length cks.
              length (blocks ! i) = length (cks ! i) \<and>
              (\<forall>r \<in> set (blocks ! i). length r = length mv) \<and>
              (\<exists>g1 W0 H' g2. non_negative_factorization lib g1
                                (signal_args mv aW seed (cks ! i) W0) = Inr (blocks ! i, H', g2))"
    by blast
  have run: "signal_loop lib mv aW seed ((ck # cks) @ [[]]) acc g = Inr (acc @ ck_W # blocks, g')"
    using ck(1) u f l by (simp add: Suc_le_eq)
  have each: "length ((ck_W # blocks) ! i) = length ((ck # cks) ! i) \<and>
              (\<forall>r \<in> set ((ck_W # blocks) ! i). length r = length mv) \<and>
              (\<exists>g1 W0 H' g2. non_negative_factorization lib g1
                 (signal_args mv aW seed ((ck # cks) ! i) W0) = Inr ((ck_W # blocks) ! i, H', g2))"
    if "i < length (ck # cks)" for i
  proof (cases i)
    case 0
    with s f show ?thesis by auto
  next
    case (Suc j)
    with that b show ?thesis by simp
  qed
  show ?case
    by (rule exI[of _ "ck_W # blocks"], rule exI[of _ g']) (use run n each in simp)
qed

lemma length_concat_same:
  assumes "length bs = length cs" "\<forall>i < length cs. length (bs ! i) = length (cs ! i)"
  shows "length (concat bs) = length (concat cs)"
proof -
  have "map length bs = map length cs"
    using assms by (intro nth_equalityI) simp_all
  then show ?thesis by (simp add: length_concat)
qed

text \<open>
  Claim C2, as stated, fails on a coverage matrix without rows: the only chunk is empty,
  the loop is left at once, and stacking no block raises.
\<close>

theorem extract_signal_empty_counterexample:
  "extract_signal ref_lib 0 (ex_data\<lparr>df_rows := []\<rparr>) ex_mm ex_conditions 2 0.01 42
     = Inl ValueError"
  by code_simp

text \<open>
  Claim C2, amended. For every coverage matrix with at least one row and every chunk
  size of at least 1 (valid inputs for a solver that returns a \<open>W\<close> of the right shape),
  \<open>extract_signal\<close> returns a signal matrix with the index of the coverage matrix, in
  its order, and the conditions list as columns. Its rows are the solver's results on
  the consecutive chunks of the coverage matrix, block by block as long as the chunk;
  no chunk is empty, also when the chunk size divides the number of rows.
\<close>

theorem extract_signal_rows:
  assumes "1 \<le> chunk_size" and "df_rows data_df \<noteq> []"
    and "signal_solver_ok lib"
    and "factorizable (df_values data_df) (df_values mmatrix)"
    and "length conditions_list = length (df_rows mmatrix)"
  shows "\<exists>out g' blocks.
           extract_signal lib g data_df mmatrix conditions_list chunk_size alpha_W seed
             = Inr (out, g') \<and>
           df_index out = df_index data_df \<and> df_columns out = conditions_list \<and>
           length (df_rows out) = length (df_rows data_df) \<and>
           df_values out = concat blocks \<and>
           concat (row_chunks (nat chunk_size) (df_values data_df)) = df_values data_df \<and>
           length blocks = length (row_chunks (nat chunk_size) (df_values data_df)) \<and>
           (\<forall>i < length blocks.
              row_chunks (nat chunk_size) (df_values data_df) ! i \<noteq> [] \<and>
              length (blocks ! i)
                = length (row_chunks (nat chunk_size) (df_values data_df) ! i) \<and>
              (\<exists>g1 W0 H' g2.
                 non_negative_factorization lib g1
                   (signal_args (df_values mmatrix) alpha_W seed
                      (row_chunks (nat chunk_size) (df_values data_df) ! i) W0)
                   = Inr (blocks ! i, H', g2)))"
proof -
  define k where "k = nat chunk_size"
  define xs where "xs = df_values data_df"
  define mv where "mv = df_values mmatrix"
  define cks where "cks = row_chunks k xs"
  have k: "0 < k" "chunk_size = int k" using assms(1) by (simp_all add: k_def)
  have len: "length (df_rows data_df) = length xs" by (simp add: xs_def df_values_def)
  have ne: "xs \<noteq> []" using assms(2) by (simp add: xs_def df_values_def)
  note C = row_chunks_props[OF k(1), of xs]
  have range: "py_range chunk_size (int (length (df_rows data_df)) + chunk_size) chunk_size
                 = Inr (map (\<lambda>i. int (Suc i * k)) [0..<(length xs + k - 1) div k])"
    unfolding k(2) len by (rule py_range_chunks[OF k(1)])
  have split: "np_split xs (map (\<lambda>i. int (Suc i * k)) [0..<(length xs + k - 1) div k])
                 = cks @ [[]]"
    unfolding cks_def by (rule np_split_chunks[OF k(1)])
  have pre: "\<forall>ck \<in> set cks. ck \<noteq> [] \<and> factorizable ck mv"
    using C(2) assms(4) factorizable_chunk unfolding cks_def xs_def mv_def by blast
  from signal_loop_chunks[OF assms(3) pre, of alpha_W seed "[]" g] obtain blocks g' where
    loop: "signal_loop lib mv alpha_W seed (cks @ [[]]) [] g = Inr (blocks, g')" and
    n: "length blocks = length cks" and
    b: "\<forall>i < length cks.
          length (blocks ! i) = length (cks ! i) \<and>
          (\<forall>r \<in> set (blocks ! i). length r = length mv) \<and>
          (\<exists>g1 W0 H' g2. non_negative_factorization lib g1
             (signal_args mv alpha_W seed (cks ! i) W0) = Inr (blocks ! i, H', g2))"
    by auto
  have bne: "blocks \<noteq> []" using n C(3)[OF ne] by (auto simp: cks_def)
  have width: "\<forall>r \<in> set (concat blocks). length r = length mv"
  proof
    fix r assume "r \<in> set (concat blocks)"
    then obtain bl where "bl \<in> set blocks" "r \<in> set bl" by auto
    then obtain i where "i < length blocks" "blocks ! i = bl" by (auto simp: in_set_conv_nth)
    with b n \<open>r \<in> set bl\<close> show "length r = length mv" by auto
  qed
  have "concat blocks \<noteq> []"
  proof -
    from bne n have "0 < length cks" by (cases blocks) auto
    with b have "length (blocks ! 0) = length (cks ! 0)" by blast
    moreover have "cks ! 0 \<noteq> []" using C(2) \<open>0 < length cks\<close> by (simp add: cks_def)
    ultimately have "blocks ! 0 \<noteq> []" by auto
    moreover have "blocks ! 0 \<in> set blocks" using bne by simp
    ultimately show ?thesis by auto
  qed
  then have "hd (concat blocks) \<in> set (concat blocks)" by (rule hd_in_set)
  with width have "length (hd (concat blocks)) = length mv" by blast
  with width have "list_all (\<lambda>r. length r = length (hd (concat blocks))) (concat blocks)"
    unfolding list_all_iff by metis
  with bne have stack: "np_vstack blocks = Inr (concat blocks)" by (simp add: np_vstack_def)
  have rows: "length (concat blocks) = length xs"
    using length_concat_same[of blocks cks] n b C(1) by (simp add: cks_def)
  have mvl: "length mv = length conditions_list"
    using assms(5) by (simp add: mv_def df_values_def)
  define out where
    "out = \<lparr>df_columns = conditions_list, df_rows = zip (df_index data_df) (concat blocks)\<rparr>"
  have frame: "DataFrame (concat blocks) (df_index data_df) conditions_list = Inr out"
    using rows width mvl len by (simp add: DataFrame_def out_def df_index_def list_all_iff)
  have run: "extract_signal lib g data_df mmatrix conditions_list chunk_size alpha_W seed
               = Inr (out, g')"
    unfolding extract_signal_def range
    using split loop stack frame by (simp add: xs_def mv_def)
  note D = DataFrame_Inr[OF frame]
  have lo: "length (df_rows out) = length (df_rows data_df)"
    using D(2) rows len by (metis df_values_def length_map)
  have each: "\<forall>i < length blocks.
      cks ! i \<noteq> [] \<and> length (blocks ! i) = length (cks ! i) \<and>
      (\<exists>g1 W0 H' g2. non_negative_factorization lib g1
         (signal_args mv alpha_W seed (cks ! i) W0) = Inr (blocks ! i, H', g2))"
    using b n C(2) by (simp add: cks_def)
  show ?thesis
    apply (rule exI[of _ out], rule exI[of _ g'], rule exI[of _ blocks])
    using run D(1,2,3) lo C(1) n each unfolding cks_def xs_def mv_def k_def by simp
qed

lemma signal_solver_ok_ref_lib: "signal_solver_ok ref_lib"
proof -
  have "ref_accepts args" if "kw_H args = Some H" "factorizable (kw_X args) H" for args H
    using that unfolding ref_accepts_def factorizable_def list_all_iff by auto
  then show ?thesis
    unfolding signal_solver_ok_def ref_lib_def by (auto simp: ref_W_def)
qed

lemma ex_factorizable: "factorizable (df_values ex_data) (df_values ex_mm)"
proof -
  have "\<exists>m > 0. (\<forall>r \<in> set (df_values ex_data). length r = m) \<and>
                (\<forall>h \<in> set (df_values ex_mm). length h = m)"
    by (rule exI[of _ 4]) (simp add: df_values_def ex_data_def ex_mm_def)
  then show ?thesis
    unfolding factorizable_def by (simp add: df_values_def ex_data_def ex_mm_def nonneg_def)
qed

theorem extract_signal_rows_witness:
  "(1::int) \<le> 1 \<and> df_rows ex_data \<noteq> [] \<and> signal_solver_ok ref_lib \<and>
   factorizable (df_values ex_data) (df_values ex_mm) \<and>
   length ex_conditions = length (df_rows ex_mm) \<and>
   (\<exists>out g' blocks.
      extract_signal ref_lib 0 ex_data ex_mm ex_conditions 1 0.01 42 = Inr (out, g') \<and>
      df_index out = df_index ex_data \<and> df_columns out = ex_conditions \<and>
      length (df_rows out) = length (df_rows ex_data) \<and>
      df_values out = concat blocks \<and>
      concat (row_chunks (nat 1) (df_values ex_data)) = df_values ex_data \<and>
      length blocks = length (row_chunks (nat 1) (df_values ex_data)) \<and>
      (\<forall>i < length blocks.
         row_chunks (nat 1) (df_values ex_data) ! i \<noteq> [] \<and>
         length (blocks ! i) = length (row_chunks (nat 1) (df_values ex_data) ! i) \<and>
         (\<exists>g1 W0 H' g2.
            non_negative_factorization ref_lib g1
              (signal_args (df_values ex_mm) 0.01 42
                 (row_chunks (nat 1) (df_values ex_data) ! i) W0)
              = Inr (blocks ! i, H', g2))))"
proof -
  have a: "(1::int) \<le> 1" "df_rows ex_data \<noteq> []" "length ex_conditions = length (df_rows ex_mm)"
    by (simp_all add: ex_data_def ex_conditions_def ex_mm_def)
  from extract_signal_rows[OF a(1,2) signal_solver_ok_ref_lib ex_factorizable a(3),
      of 0 "0.01" 42] a signal_solver_ok_ref_lib ex_factorizable
  show ?thesis by (intro conjI) assumption+
qed

end
